theory Spec2Isabelle
  imports Complex_Main "HOL-Library.Sublist"
begin

section \<open>Python strings\<close>

text \<open>
  A Python \<open>str\<close> is modelled as a \<open>string\<close> that holds its UTF-8 encoding: a
  character below U+0080 is one byte, and every byte of a longer character is \<open>0x80\<close> or
  above. Whitespace is all of Python's: \<open>strip\<close> and \<open>split\<close> remove and split at the 29
  characters for which \<open>str.isspace\<close> holds. Lowercasing is Python's on ASCII text; on
  other text it is a function handed in, which stands for the case tables of Unicode.
\<close>

definition whitespace :: "string list" where
  \<comment> \<open>The characters with \<open>str.isspace\<close>, each in UTF-8: U+0009 to U+000D, U+001C to
      U+0020, U+0085, U+00A0, U+1680, U+2000 to U+200A, U+2028, U+2029, U+202F, U+205F and
      U+3000.\<close>
  "whitespace =
     [[CHR 0x09], [CHR 0x0A], [CHR 0x0B], [CHR 0x0C], [CHR 0x0D],
      [CHR 0x1C], [CHR 0x1D], [CHR 0x1E], [CHR 0x1F], [CHR 0x20],
      [CHR 0xC2, CHR 0x85], [CHR 0xC2, CHR 0xA0],
      [CHR 0xE1, CHR 0x9A, CHR 0x80],
      [CHR 0xE2, CHR 0x80, CHR 0x80], [CHR 0xE2, CHR 0x80, CHR 0x81],
      [CHR 0xE2, CHR 0x80, CHR 0x82], [CHR 0xE2, CHR 0x80, CHR 0x83],
      [CHR 0xE2, CHR 0x80, CHR 0x84], [CHR 0xE2, CHR 0x80, CHR 0x85],
      [CHR 0xE2, CHR 0x80, CHR 0x86], [CHR 0xE2, CHR 0x80, CHR 0x87],
      [CHR 0xE2, CHR 0x80, CHR 0x88], [CHR 0xE2, CHR 0x80, CHR 0x89],
      [CHR 0xE2, CHR 0x80, CHR 0x8A],
      [CHR 0xE2, CHR 0x80, CHR 0xA8], [CHR 0xE2, CHR 0x80, CHR 0xA9],
      [CHR 0xE2, CHR 0x80, CHR 0xAF],
      [CHR 0xE2, CHR 0x81, CHR 0x9F],
      [CHR 0xE3, CHR 0x80, CHR 0x80]]"

function strip_leading :: "string list \<Rightarrow> string \<Rightarrow> string" where
  \<comment> \<open>The text after every leading character that is one of \<open>pats\<close>.\<close>
  "strip_leading pats s =
     (case List.find (\<lambda>p. p \<noteq> [] \<and> prefix p s) pats of
        None \<Rightarrow> s
      | Some p \<Rightarrow> strip_leading pats (drop (length p) s))"
  by pat_completeness auto
termination
proof (relation "measure (\<lambda>(pats, s). length s)")
  show "wf (measure (\<lambda>(pats, s). length s))" by simp
next
  fix pats :: "string list" and s p :: string
  assume "List.find (\<lambda>p. p \<noteq> [] \<and> prefix p s) pats = Some p"
  then have "p \<noteq> [] \<and> prefix p s"
    by (auto simp add: find_Some_iff)
  then have "0 < length p" and "length p \<le> length s"
    by (auto simp add: prefix_length_le)
  then have "length s - length p < length s"
    by arith
  then show "((pats, drop (length p) s), (pats, s)) \<in> measure (\<lambda>(pats, s). length s)"
    by simp
qed

declare strip_leading.simps [simp del]

definition lstrip :: "string \<Rightarrow> string" where
  \<comment> \<open>Leading whitespace removed.\<close>
  "lstrip s = strip_leading whitespace s"

definition rstrip :: "string \<Rightarrow> string" where
  \<comment> \<open>Trailing whitespace removed: a text in UTF-8 ends with a whitespace character
      exactly when it ends with the bytes of one.\<close>
  "rstrip s = rev (strip_leading (map rev whitespace) (rev s))"

definition strip :: "string \<Rightarrow> string" where
  \<comment> \<open>\<open>str.strip()\<close>: leading and trailing whitespace removed.\<close>
  "strip s = rstrip (lstrip s)"

definition startswith :: "string \<Rightarrow> string \<Rightarrow> bool" where
  \<comment> \<open>\<open>s.startswith(p)\<close>\<close>
  "startswith s p = (take (length p) s = p)"

definition at_space :: "string \<Rightarrow> bool" where
  \<comment> \<open>The text starts with a whitespace character.\<close>
  "at_space s = list_ex (\<lambda>p. prefix p s) whitespace"

fun split_token :: "string \<Rightarrow> string \<times> string" where
  \<comment> \<open>The text before the first whitespace character, and the text from there on.\<close>
  "split_token [] = ([], [])"
| "split_token (c # cs) =
     (if at_space (c # cs) then ([], c # cs)
      else (case split_token cs of (tok, rest) \<Rightarrow> (c # tok, rest)))"

definition split_maxsplit1 :: "string \<Rightarrow> string list" where
  \<comment> \<open>\<open>s.split(maxsplit=1)\<close>: split at the first run of whitespace; leading whitespace
      is skipped, and a remainder that is empty after the run is not returned.\<close>
  "split_maxsplit1 s =
     (let s1 = lstrip s in
      if s1 = [] then []
      else
        (case split_token s1 of
           (tok, r) \<Rightarrow> let rest = lstrip r in if rest = [] then [tok] else [tok, rest]))"

definition upper_letters :: string where
  "upper_letters = ''ABCDEFGHIJKLMNOPQRSTUVWXYZ''"

definition lower_letters :: string where
  "lower_letters = ''abcdefghijklmnopqrstuvwxyz''"

definition lower_char :: "char \<Rightarrow> char" where
  "lower_char c = (case map_of (zip upper_letters lower_letters) c of
                     Some d \<Rightarrow> d | None \<Rightarrow> c)"

definition upper_char :: "char \<Rightarrow> char" where
  "upper_char c = (case map_of (zip lower_letters upper_letters) c of
                     Some d \<Rightarrow> d | None \<Rightarrow> c)"

definition is_ascii :: "string \<Rightarrow> bool" where
  \<comment> \<open>\<open>str.isascii()\<close>: every byte is below \<open>0x80\<close>.\<close>
  "is_ascii s = list_all (\<lambda>c. \<not> digit7 c) s"

definition lower :: "(string \<Rightarrow> string) \<Rightarrow> string \<Rightarrow> string" where
  \<comment> \<open>\<open>s.lower()\<close>. On ASCII text the letters \<open>A\<close> to \<open>Z\<close> become \<open>a\<close> to \<open>z\<close>; on any
      other text the result is that of the first argument, which stands for Python's
      lowercasing by the Unicode tables.\<close>
  "lower unicode_lower s = (if is_ascii s then map lower_char s else unicode_lower s)"

definition capitalize :: "string \<Rightarrow> string" where
  \<comment> \<open>\<open>str.capitalize()\<close> on ASCII text, which the roles \<open>system\<close>, \<open>user\<close> and
      \<open>assistant\<close> that the program creates are: first character upper case, all the
      others lower case.\<close>
  "capitalize s = (case s of [] \<Rightarrow> [] | c # cs \<Rightarrow> upper_char c # map lower_char cs)"

definition digit_char :: "nat \<Rightarrow> char" where
  "digit_char d = ''0123456789'' ! d"

fun digits :: "nat \<Rightarrow> string" where
  "digits n = (if n < 10 then [digit_char n]
               else digits (n div 10) @ [digit_char (n mod 10)])"

declare digits.simps [simp del]

definition str_int :: "int \<Rightarrow> string" where
  \<comment> \<open>\<open>str(n)\<close> of an \<open>int\<close>: the decimal numeral, with a minus sign when negative.\<close>
  "str_int i = (if i < 0 then CHR ''-'' # digits (nat (- i)) else digits (nat i))"

section \<open>Python values and exceptions\<close>

text \<open>
  The values that travel through the program are the ones a JSON document decodes to:
  \<open>None\<close>, booleans, numbers, strings, lists and dictionaries with string keys. A
  dictionary is kept as the association list of its items, each key once; a lookup takes
  the entry with the key.
\<close>

datatype json =
    JNull
  | JBool bool
  | JInt int
  | JFloat real
  | JStr string
  | JArr "json list"
  | JObj "(string \<times> json) list"

text \<open>
  The exceptions the program raises or lets through. All of them are subclasses of
  \<open>Exception\<close>. \<open>LibraryError\<close> stands for whatever a library call raises (a
  \<open>requests\<close> transport error or timeout, a JSON decoding error, an \<open>OSError\<close>) and
  carries the text \<open>str(e)\<close> of the exception. An interrupt of the user is a
  \<open>KeyboardInterrupt\<close>, which is no \<open>Exception\<close>: the one that \<open>input\<close> raises is an
  event of the session loop below; one that arrives in the middle of a remote call is not
  a failure of the call and ends the process, outside this model.
\<close>

datatype exn =
    RuntimeError string
  | IndexError
  | AttributeError string
  | LibraryError string

fun str_exn :: "exn \<Rightarrow> string" where
  \<comment> \<open>\<open>str(e)\<close>, which the f-strings \<open>{e}\<close> of \<open>main\<close> format.\<close>
  "str_exn (RuntimeError m) = m"
| "str_exn IndexError = ''list index out of range''"
| "str_exn (AttributeError m) = m"
| "str_exn (LibraryError m) = m"

section \<open>History windowing\<close>

definition slice_from :: "'a list \<Rightarrow> int \<Rightarrow> 'a list" where
  \<comment> \<open>Python's \<open>xs[i:]\<close>: a negative start counts from the end and is clipped at 0.\<close>
  "slice_from xs i =
     (if i < 0 then drop (nat (max (int (length xs) + i) 0)) xs else drop (nat i) xs)"

definition truncate_history :: "'a list \<Rightarrow> int \<Rightarrow> exn + 'a list" where
  "truncate_history history max_pairs =
     (if max_pairs \<le> 0 then Inr (take 1 history)
      else
        let body = drop 1 history;
            trimmed = (if int (length body) > 2 * max_pairs
                       then slice_from body (- (2 * max_pairs)) else body)
        in (case history of
              [] \<Rightarrow> Inl IndexError
            | h # _ \<Rightarrow> Inr (h # trimmed)))"

section \<open>Remote completion client\<close>

text \<open>
  A message is a Python dictionary with the keys \<open>role\<close> and \<open>content\<close>.
\<close>

type_synonym message = "string \<rightharpoonup> json"

definition mk_message :: "string \<Rightarrow> json \<Rightarrow> message" where
  \<comment> \<open>The dictionary literal \<open>{"role": r, "content": c}\<close>.\<close>
  "mk_message r c = [''role'' \<mapsto> JStr r, ''content'' \<mapsto> c]"

definition get :: "message \<Rightarrow> string \<Rightarrow> json \<Rightarrow> json" where
  \<comment> \<open>\<open>m.get(k, d)\<close>\<close>
  "get m k d = (case m k of None \<Rightarrow> d | Some v \<Rightarrow> v)"

record payload =
  p_model :: string
  p_messages :: "message list"
  p_temperature :: real

record response =
  status_code :: int
  resp_text :: string    \<comment> \<open>\<open>resp.text\<close>, the raw body\<close>
  resp_json :: "exn + json"    \<comment> \<open>what \<open>resp.json()\<close> does: raise, or return the decoded body\<close>

datatype post_outcome =
    PostRaised exn       \<comment> \<open>\<open>session.post\<close> raises (connection error, timeout)\<close>
  | Responded response

definition subscript_key :: "json \<Rightarrow> string \<Rightarrow> json option" where
  \<comment> \<open>\<open>v[k]\<close> for a string \<open>k\<close>; \<open>None\<close> when Python raises (\<open>KeyError\<close> on a
      dictionary without the key, \<open>TypeError\<close> on anything that is not a dictionary).\<close>
  "subscript_key v k = (case v of JObj kvs \<Rightarrow> map_of kvs k | _ \<Rightarrow> None)"

definition subscript_0 :: "json \<Rightarrow> json option" where
  \<comment> \<open>\<open>v[0]\<close>; \<open>None\<close> when Python raises (\<open>IndexError\<close> on an empty list or string,
      \<open>KeyError\<close> on a dictionary, whose keys are strings, \<open>TypeError\<close> otherwise).\<close>
  "subscript_0 v =
     (case v of
        JArr (x # _) \<Rightarrow> Some x
      | JStr (c # _) \<Rightarrow> Some (JStr [c])
      | _ \<Rightarrow> None)"

definition extract_reply :: "json \<Rightarrow> json option" where
  \<comment> \<open>\<open>data["choices"][0]["message"]["content"]\<close>\<close>
  "extract_reply data =
     (case subscript_key data ''choices'' of None \<Rightarrow> None
      | Some choices \<Rightarrow>
     (case subscript_0 choices of None \<Rightarrow> None
      | Some choice \<Rightarrow>
     (case subscript_key choice ''message'' of None \<Rightarrow> None
      | Some msg \<Rightarrow> subscript_key msg ''content'')))"

text \<open>
  What lies outside the program during one iteration of the session loop: the Python
  library functions whose results the program only formats, the remote service, the file
  system and the clock.
\<close>

record world =
  py_str :: "json \<Rightarrow> string"    \<comment> \<open>\<open>str(v)\<close> of a value that is not a \<open>str\<close>\<close>
  json_dumps :: "json \<Rightarrow> string"    \<comment> \<open>\<open>json.dumps(v, indent=2)\<close>\<close>
  str_lower :: "string \<Rightarrow> string"    \<comment> \<open>\<open>s.lower()\<close> of a text that is not ASCII\<close>
  post :: "string \<Rightarrow> payload \<Rightarrow> int \<Rightarrow> post_outcome"
    \<comment> \<open>\<open>session.post(url, json=payload, timeout=timeout)\<close>\<close>
  resolve :: "string \<Rightarrow> exn + string"
    \<comment> \<open>\<open>Path(p).expanduser().resolve()\<close>: raises, or gives the absolute path\<close>
  open_w :: "string \<Rightarrow> exn option"
    \<comment> \<open>\<open>path.parent.mkdir(parents=True, exist_ok=True)\<close> and \<open>open(path, "w")\<close>:
        the exception raised, if any\<close>
  write_close :: "string \<Rightarrow> string \<Rightarrow> exn option"
    \<comment> \<open>writing the text to the open file and closing it: the exception raised, if any\<close>
  now :: string    \<comment> \<open>\<open>datetime.now().strftime("%Y%m%d_%H%M%S")\<close>\<close>

definition call_api ::
  "world \<Rightarrow> string \<Rightarrow> string \<Rightarrow> message list \<Rightarrow> real \<Rightarrow> int \<Rightarrow> exn + json" where
  "call_api w url model messages temperature timeout =
     (let payload = \<lparr>p_model = model, p_messages = messages, p_temperature = temperature\<rparr>
      in case post w url payload timeout of
        PostRaised e \<Rightarrow> Inl e
      | Responded resp \<Rightarrow>
          if status_code resp \<noteq> 200
          then Inl (RuntimeError (''HTTP '' @ str_int (status_code resp) @ '': '' @ resp_text resp))
          else (case resp_json resp of
                  Inl e \<Rightarrow> Inl e
                | Inr data \<Rightarrow>
                    (case extract_reply data of
                       Some reply \<Rightarrow> Inr reply
                     | None \<Rightarrow>
                         Inl (RuntimeError
                                (''Unexpected response format: '' @ json_dumps w data)))))"

section \<open>Transcript sink\<close>

definition format_value :: "world \<Rightarrow> json \<Rightarrow> string" where
  \<comment> \<open>A value inside an f-string, \<open>f"{v}"\<close>: a \<open>str\<close> is inserted as it is, any other
      value through \<open>str\<close>.\<close>
  "format_value w v = (case v of JStr s \<Rightarrow> s | _ \<Rightarrow> py_str w v)"

definition type_name :: "json \<Rightarrow> string" where
  "type_name v =
     (case v of JNull \<Rightarrow> ''NoneType'' | JBool _ \<Rightarrow> ''bool'' | JInt _ \<Rightarrow> ''int''
      | JFloat _ \<Rightarrow> ''float'' | JStr _ \<Rightarrow> ''str'' | JArr _ \<Rightarrow> ''list'' | JObj _ \<Rightarrow> ''dict'')"

definition quote :: string where
  "quote = [CHR 0x27]"

definition newline :: string where
  "newline = [CHR 0x0A]"

definition transcript_entry :: "world \<Rightarrow> message \<Rightarrow> exn + string" where
  \<comment> \<open>One round of the loop of \<open>save_transcript\<close>: the text it writes for \<open>m\<close>. A role
      that is not a \<open>str\<close> has no \<open>capitalize\<close>.\<close>
  "transcript_entry w m =
     (case get m ''role'' (JStr ''?'') of
        JStr r \<Rightarrow>
          (let role = capitalize r;
               content = get m ''content'' (JStr [])
           in Inr (role @ '': '' @ format_value w content @ newline @ newline))
      | v \<Rightarrow> Inl (AttributeError (quote @ type_name v @ quote
                       @ '' object has no attribute '' @ quote @ ''capitalize'' @ quote)))"

fun transcript_text :: "world \<Rightarrow> message list \<Rightarrow> exn + string" where
  \<comment> \<open>\<open>for m in history: f.write(...)\<close>: everything written, or the first exception.\<close>
  "transcript_text w [] = Inr []"
| "transcript_text w (m # ms) =
     (case transcript_entry w m of
        Inl e \<Rightarrow> Inl e
      | Inr s \<Rightarrow> (case transcript_text w ms of Inl e \<Rightarrow> Inl e | Inr t \<Rightarrow> Inr (s @ t)))"

definition save_transcript :: "world \<Rightarrow> message list \<Rightarrow> string \<Rightarrow> exn + (string \<times> string)" where
  \<comment> \<open>Returns the resolved path, and with it the text that is in the file afterwards.\<close>
  "save_transcript w history path =
     (case resolve w path of
        Inl e \<Rightarrow> Inl e
      | Inr p \<Rightarrow>
          (case open_w w p of
             Some e \<Rightarrow> Inl e
           | None \<Rightarrow>
               (case transcript_text w history of
                  Inl e \<Rightarrow> Inl e
                | Inr t \<Rightarrow>
                    (case write_close w p t of
                       Some e \<Rightarrow> Inl e
                     | None \<Rightarrow> Inr (p, t)))))"

section \<open>Session loop\<close>

definition DEFAULT_SYSTEM :: string where
  \<comment> \<open>The dash of \<open>1-5\<close> is U+2013, three bytes in UTF-8.\<close>
  "DEFAULT_SYSTEM =
     ''You are SpongeBob SquarePants. Speak cheerfully with nautical puns, ''
     @ ''occasional '' @ quote @ ''barnacles!'' @ quote @ '' and '' @ quote @ ''jellyfishing''
     @ quote @ '' references. Be upbeat, kind, ''
     @ ''and whimsical. Keep replies concise (1'' @ [CHR 0xE2, CHR 0x80, CHR 0x93]
     @ ''5 sentences). Avoid harmful content.''"

record args =
  max_turns :: int
  temperature :: real
  system :: "string option"    \<comment> \<open>\<open>--system\<close>, \<open>None\<close> when the flag is absent\<close>
  timeout :: int
  model :: string    \<comment> \<open>\<open>args.model or env_model\<close>\<close>
  url :: string    \<comment> \<open>the endpoint that \<open>make_client\<close> returns\<close>

definition system_prompt :: "args \<Rightarrow> string" where
  \<comment> \<open>\<open>args.system or DEFAULT_SYSTEM\<close>: an empty string is falsy.\<close>
  "system_prompt a = (case system a of None \<Rightarrow> DEFAULT_SYSTEM
                      | Some s \<Rightarrow> if s = [] then DEFAULT_SYSTEM else s)"

definition initial_history :: "args \<Rightarrow> message list" where
  "initial_history a = [mk_message ''system'' (JStr (system_prompt a))]"

datatype input_event =
    Line string          \<comment> \<open>\<open>input("You: ")\<close> returns this line\<close>
  | EOFError             \<comment> \<open>\<open>input\<close> raises at the end of the input\<close>
  | KeyboardInterrupt    \<comment> \<open>\<open>input\<close> raises on an interrupt\<close>

datatype control =
    Continue    \<comment> \<open>the loop goes on to the next iteration\<close>
  | Break       \<comment> \<open>the loop is left, \<open>main\<close> returns\<close>
  | Exit int    \<comment> \<open>\<open>sys.exit\<close> with this status\<close>

text \<open>
  The outcome of one iteration: the history afterwards, the arguments of the \<open>print\<close>
  calls it made, the message lists it handed to \<open>call_api\<close>, the files it wrote (path and
  text), and how the loop goes on.
\<close>

record step_result =
  history :: "message list"
  printed :: "string list"
  submitted :: "message list list"
  written :: "(string \<times> string) list"
  control :: control

definition sponge :: string where
  \<comment> \<open>U+1F9FD in UTF-8.\<close>
  "sponge = [CHR 0xF0, CHR 0x9F, CHR 0xA7, CHR 0xBD]"

definition quiet :: "message list \<Rightarrow> string list \<Rightarrow> control \<Rightarrow> step_result" where
  \<comment> \<open>An iteration that neither calls the service nor writes a file.\<close>
  "quiet h out c = \<lparr>history = h, printed = out, submitted = [], written = [], control = c\<rparr>"

definition fatal :: "message list \<Rightarrow> message list list \<Rightarrow> exn \<Rightarrow> step_result" where
  \<comment> \<open>The outer handler: \<open>print(f"Fatal error: {e}")\<close>, then \<open>sys.exit(1)\<close>.\<close>
  "fatal h sub e =
     \<lparr>history = h, printed = [''Fatal error: '' @ str_exn e], submitted = sub, written = [],
      control = Exit 1\<rparr>"

definition help_lines :: "string list" where
  "help_lines =
     [''Commands:'',
      ''  :help                Show this help'',
      ''  :reset               Clear history (keep system prompt)'',
      ''  :save                Save transcript to a file (txt)'',
      ''  :quit / :q / :exit   Exit the chatbot'']"

definition command :: "world \<Rightarrow> message list \<Rightarrow> string \<Rightarrow> step_result" where
  \<comment> \<open>The branch \<open>if user.startswith(":")\<close> of the loop body.\<close>
  "command w h user =
     (case split_maxsplit1 user of
        [] \<Rightarrow> fatal h [] IndexError
      | p0 # ps \<Rightarrow>
          let cmd = lower (str_lower w) p0;
              arg = (case ps of [] \<Rightarrow> [] | p1 # _ \<Rightarrow> p1)
          in
            if cmd \<in> set ['':quit'', '':q'', '':exit''] then
              quiet h [''Bye! '' @ sponge] Break
            else if cmd = '':help'' then
              quiet h help_lines Continue
            else if cmd = '':reset'' then
              (case h of
                 [] \<Rightarrow> fatal h [] IndexError
               | h0 # _ \<Rightarrow> quiet [h0] [''History cleared (system prompt kept).''] Continue)
            else if cmd = '':save'' then
              (let ts = now w;
                   default_name = ''spongebob_chat_'' @ ts @ ''.txt'';
                   path = (if arg \<noteq> [] then arg else default_name)
               in case save_transcript w h path of
                    Inl e \<Rightarrow> fatal h [] e
                  | Inr (saved, txt) \<Rightarrow>
                      \<lparr>history = h, printed = [''Saved transcript to: '' @ saved],
                       submitted = [], written = [(saved, txt)], control = Continue\<rparr>)
            else
              quiet h [''Unknown command: '' @ cmd @ ''. Type :help''] Continue)"

definition chat_turn :: "args \<Rightarrow> world \<Rightarrow> message list \<Rightarrow> string \<Rightarrow> step_result" where
  \<comment> \<open>The part of the loop body after the comment \<open># Normal chat turn\<close>.\<close>
  "chat_turn a w h user =
     (let h1 = h @ [mk_message ''user'' (JStr user)] in
      case truncate_history h1 (max_turns a) of
        Inl e \<Rightarrow> fatal h1 [] e
      | Inr trimmed \<Rightarrow>
          (case call_api w (url a) (model a) trimmed (temperature a) (timeout a) of
             Inl e \<Rightarrow>
               \<lparr>history = h1 @ [mk_message ''assistant''
                                   (JStr (''(Error: '' @ str_exn e @ '')''))],
                printed = [''SpongeBob (error): '' @ str_exn e],
                submitted = [trimmed], written = [], control = Continue\<rparr>
           | Inr reply \<Rightarrow>
               \<lparr>history = h1 @ [mk_message ''assistant'' reply],
                printed = [''SpongeBob: '' @ format_value w reply],
                submitted = [trimmed], written = [], control = Continue\<rparr>))"

definition loop_iteration ::
  "args \<Rightarrow> world \<Rightarrow> message list \<Rightarrow> input_event \<Rightarrow> step_result" where
  \<comment> \<open>One round of \<open>while True\<close> in \<open>main\<close>, from the value or exception of \<open>input\<close>.
      The prompt is written by \<open>input\<close> itself; \<open>printed\<close> holds the \<open>print\<close> calls.\<close>
  "loop_iteration a w h ev =
     (case ev of
        EOFError \<Rightarrow> quiet h [newline @ ''Bye! '' @ sponge] Break
      | KeyboardInterrupt \<Rightarrow> quiet h [newline @ ''Bye! '' @ sponge] Break
      | Line raw \<Rightarrow>
          let user = strip raw in
          if user = [] then quiet h [] Continue
          else if startswith user '':'' then command w h user
          else chat_turn a w h user)"

fun run :: "args \<Rightarrow> (world \<times> input_event) list \<Rightarrow> message list \<Rightarrow> step_result" where
  \<comment> \<open>The loop over the inputs given, each with the world it meets; it stops at the first
      iteration that leaves the loop. The outputs of the iterations are concatenated.\<close>
  "run a [] h = quiet h [] Continue"
| "run a ((w, ev) # rest) h =
     (let r = loop_iteration a w h ev in
      if control r = Continue then
        (let r' = run a rest (history r) in
         r'\<lparr>printed := printed r @ printed r',
            submitted := submitted r @ submitted r',
            written := written r @ written r'\<rparr>)
      else r)"

definition main :: "args \<Rightarrow> (world \<times> input_event) list \<Rightarrow> step_result" where
  \<comment> \<open>\<open>main\<close> after the client is made and the banner printed.\<close>
  "main a evs = run a evs (initial_history a)"

section \<open>Reading a transcript back\<close>

text \<open>
  Modelled from the spec: the repository has no reader of transcripts; the round-trip
  property speaks of parsing the written text as entries separated by blank lines, each a
  role label, a colon and the content. The reader below does exactly that: an entry ends
  at the first blank line (two consecutive newlines), and inside an entry the label ends
  at the first colon followed by a space.
\<close>

fun split_entries :: "string \<Rightarrow> string \<Rightarrow> string list" where
  \<comment> \<open>Modelled from the spec: the entries of a transcript, separated by blank lines. The
      first argument holds, reversed, the characters of the entry read so far.\<close>
  "split_entries acc [] = (if acc = [] then [] else [rev acc])"
| "split_entries acc [c] = [rev (c # acc)]"
| "split_entries acc (c # d # cs) =
     (if c = CHR 0x0A \<and> d = CHR 0x0A then rev acc # split_entries [] cs
      else split_entries (c # acc) (d # cs))"

fun split_label :: "string \<Rightarrow> string \<Rightarrow> (string \<times> string) option" where
  \<comment> \<open>Modelled from the spec: the role label of an entry, the colon, and the content.\<close>
  "split_label acc [] = None"
| "split_label acc [c] = None"
| "split_label acc (c # d # cs) =
     (if c = CHR '':'' \<and> d = CHR '' '' then Some (rev acc, cs)
      else split_label (c # acc) (d # cs))"

definition parse_transcript :: "string \<Rightarrow> (string \<times> string) list option" where
  \<comment> \<open>Modelled from the spec: the label and content of every entry of the written text,
      or \<open>None\<close> when an entry has no label.\<close>
  "parse_transcript txt = those (map (split_label []) (split_entries [] txt))"

section \<open>Concrete sessions\<close>

definition completion :: "json \<Rightarrow> json" where
  \<comment> \<open>A response body of the shape the endpoint documents, with the given content.\<close>
  "completion c =
     JObj [(''choices'',
            JArr [JObj [(''message'', JObj [(''role'', JStr ''assistant''), (''content'', c)])]])]"

definition latin1_lower_byte :: "char \<Rightarrow> char" where
  \<comment> \<open>The second byte of the lowercase of a letter U+00C0 to U+00DE: all of them but
      U+00D7, the multiplication sign, move up by \<open>0x20\<close>.\<close>
  "latin1_lower_byte d =
     (case map_of (zip
        [CHR 0x80, CHR 0x81, CHR 0x82, CHR 0x83, CHR 0x84, CHR 0x85, CHR 0x86, CHR 0x87,
         CHR 0x88, CHR 0x89, CHR 0x8A, CHR 0x8B, CHR 0x8C, CHR 0x8D, CHR 0x8E, CHR 0x8F,
         CHR 0x90, CHR 0x91, CHR 0x92, CHR 0x93, CHR 0x94, CHR 0x95, CHR 0x96, CHR 0x98,
         CHR 0x99, CHR 0x9A, CHR 0x9B, CHR 0x9C, CHR 0x9D, CHR 0x9E]
        [CHR 0xA0, CHR 0xA1, CHR 0xA2, CHR 0xA3, CHR 0xA4, CHR 0xA5, CHR 0xA6, CHR 0xA7,
         CHR 0xA8, CHR 0xA9, CHR 0xAA, CHR 0xAB, CHR 0xAC, CHR 0xAD, CHR 0xAE, CHR 0xAF,
         CHR 0xB0, CHR 0xB1, CHR 0xB2, CHR 0xB3, CHR 0xB4, CHR 0xB5, CHR 0xB6, CHR 0xB8,
         CHR 0xB9, CHR 0xBA, CHR 0xBB, CHR 0xBC, CHR 0xBD, CHR 0xBE]) d of
        Some e \<Rightarrow> e | None \<Rightarrow> d)"

fun latin1_lower :: "string \<Rightarrow> string" where
  \<comment> \<open>\<open>s.lower()\<close> of a text whose characters are all below U+0100: the letters \<open>A\<close>
      to \<open>Z\<close>, and the letters U+00C0 to U+00DE, which are \<open>0xC3\<close> and a second byte in
      UTF-8. Characters from U+0100 on are left as they are.\<close>
  "latin1_lower [] = []"
| "latin1_lower [c] = [lower_char c]"
| "latin1_lower (c # d # cs) =
     (if c = CHR 0xC3 then c # latin1_lower_byte d # latin1_lower cs
      else lower_char c # latin1_lower (d # cs))"

definition answering :: "int \<Rightarrow> string \<Rightarrow> json \<Rightarrow> world" where
  \<comment> \<open>A world whose service answers every request with the given status, raw body and
      decoded body, and whose file system accepts every write. Its lowercasing of a text
      that is not ASCII is Python's when the characters of the text are below U+0100.\<close>
  "answering sc raw data =
     \<lparr>py_str = (\<lambda>v. ''<'' @ type_name v @ ''>''),
      json_dumps = (\<lambda>v. ''<'' @ type_name v @ ''>''),
      str_lower = latin1_lower,
      post = (\<lambda>u p t. Responded \<lparr>status_code = sc, resp_text = raw, resp_json = Inr data\<rparr>),
      resolve = (\<lambda>p. Inr (''/home/bob/'' @ p)),
      open_w = (\<lambda>p. None),
      write_close = (\<lambda>p t. None),
      now = ''20250101_120000''\<rparr>"

definition one_pair :: args where
  \<comment> \<open>The session of the spec's scenario: \<open>--max-turns 1\<close>, everything else by default.\<close>
  "one_pair =
     \<lparr>max_turns = 1, temperature = 6 / 10, system = None, timeout = 60,
      model = ''gemma3:4b'', url = ''https://ai.sooners.us/api/chat/completions''\<rparr>"

section \<open>Properties of the window\<close>

lemma slice_from_last:
  "0 < n \<Longrightarrow> slice_from xs (- int n) = drop (length xs - n) xs"
  by (simp add: slice_from_def max_def nat_diff_distrib')

lemma truncate_history_Cons:
  assumes "0 < k"
  shows "truncate_history (s # body) k = Inr (s # drop (length body - nat (2 * k)) body)"
proof -
  have n: "0 < nat (2 * k)" using assms by simp
  have "slice_from body (- (2 * k)) = drop (length body - nat (2 * k)) body"
    using slice_from_last [OF n, of body] assms by simp
  then show ?thesis using assms by (simp add: truncate_history_def Let_def)
qed

lemma truncate_history_append_Inr:
  "\<exists>trimmed. truncate_history (h @ [m]) k = Inr trimmed"
  by (cases h) (simp_all add: truncate_history_def Let_def)

section \<open>Properties of a chat turn\<close>

lemma loop_iteration_chat:
  "strip l \<noteq> [] \<Longrightarrow> \<not> startswith (strip l) '':'' \<Longrightarrow>
   loop_iteration a w h (Line l) = chat_turn a w h (strip l)"
  by (simp add: loop_iteration_def Let_def)

lemma strip_hi: "strip ''hi'' = ''hi''"
  by code_simp

lemma strip_bye: "strip ''bye'' = ''bye''"
  by code_simp

lemma chat_turn_success:
  "truncate_history (h @ [mk_message ''user'' (JStr u)]) (max_turns a) = Inr trimmed \<Longrightarrow>
   call_api w (url a) (model a) trimmed (temperature a) (timeout a) = Inr reply \<Longrightarrow>
   chat_turn a w h u =
     \<lparr>history = h @ [mk_message ''user'' (JStr u), mk_message ''assistant'' reply],
      printed = [''SpongeBob: '' @ format_value w reply],
      submitted = [trimmed], written = [], control = Continue\<rparr>"
  by (simp add: chat_turn_def Let_def)

lemma chat_turn_failure:
  "truncate_history (h @ [mk_message ''user'' (JStr u)]) (max_turns a) = Inr trimmed \<Longrightarrow>
   call_api w (url a) (model a) trimmed (temperature a) (timeout a) = Inl e \<Longrightarrow>
   chat_turn a w h u =
     \<lparr>history = h @ [mk_message ''user'' (JStr u),
                      mk_message ''assistant'' (JStr (''(Error: '' @ str_exn e @ '')''))],
      printed = [''SpongeBob (error): '' @ str_exn e],
      submitted = [trimmed], written = [], control = Continue\<rparr>"
  by (simp add: chat_turn_def Let_def)

lemma chat_turn_submitted:
  "truncate_history (h @ [mk_message ''user'' (JStr u)]) (max_turns a) = Inr trimmed \<Longrightarrow>
   submitted (chat_turn a w h u) = [trimmed] \<and> control (chat_turn a w h u) = Continue"
  by (cases "call_api w (url a) (model a) trimmed (temperature a) (timeout a)")
     (simp_all add: chat_turn_success chat_turn_failure)

lemma scenario_two_turns:
  assumes k: "max_turns a = 1"
    and r1: "call_api w1 (url a) (model a)
                [mk_message ''system'' (JStr (system_prompt a)), mk_message ''user'' (JStr ''hi'')]
                (temperature a) (timeout a) = Inr reply1"
  shows "submitted (main a [(w1, Line ''hi''), (w2, Line ''bye'')]) =
           [[mk_message ''system'' (JStr (system_prompt a)), mk_message ''user'' (JStr ''hi'')],
            [mk_message ''system'' (JStr (system_prompt a)), mk_message ''assistant'' reply1,
             mk_message ''user'' (JStr ''bye'')]]"
proof -
  let ?s = "mk_message ''system'' (JStr (system_prompt a))"
  let ?hi = "mk_message ''user'' (JStr ''hi'')"
  let ?bye = "mk_message ''user'' (JStr ''bye'')"
  let ?r = "mk_message ''assistant'' reply1"
  have t1: "truncate_history ([?s] @ [?hi]) (max_turns a) = Inr [?s, ?hi]"
    using truncate_history_Cons [of 1 ?s "[?hi]"] k by simp
  have i1: "loop_iteration a w1 [?s] (Line ''hi'') = chat_turn a w1 [?s] ''hi''"
    using loop_iteration_chat [of "''hi''" a w1 "[?s]"] by (simp add: strip_hi startswith_def)
  have c1: "chat_turn a w1 [?s] ''hi'' =
     \<lparr>history = [?s, ?hi, ?r],
      printed = [''SpongeBob: '' @ format_value w1 reply1],
      submitted = [[?s, ?hi]], written = [], control = Continue\<rparr>"
    using chat_turn_success [OF t1, of w1 reply1] r1 by simp
  have t2: "truncate_history ([?s, ?hi, ?r] @ [?bye]) (max_turns a) = Inr [?s, ?r, ?bye]"
    using truncate_history_Cons [of 1 ?s "[?hi, ?r, ?bye]"] k by simp
  have i2: "loop_iteration a w2 [?s, ?hi, ?r] (Line ''bye'')
              = chat_turn a w2 [?s, ?hi, ?r] ''bye''"
    using loop_iteration_chat [of "''bye''" a w2] by (simp add: strip_bye startswith_def)
  have c2: "submitted (chat_turn a w2 [?s, ?hi, ?r] ''bye'') = [[?s, ?r, ?bye]]"
    and c2': "control (chat_turn a w2 [?s, ?hi, ?r] ''bye'') = Continue"
    using chat_turn_submitted [OF t2, of w2] by simp_all
  show ?thesis
    by (simp add: main_def initial_history_def i1 c1 i2 c2 c2' Let_def quiet_def)
qed

lemma call_api_answering_200:
  "extract_reply data = Some reply \<Longrightarrow>
   call_api (answering 200 raw data) u m msgs t to = Inr reply"
  by (simp add: call_api_def answering_def)

lemma extract_reply_completion: "extract_reply (completion c) = Some c"
  by (simp add: extract_reply_def completion_def subscript_key_def subscript_0_def)

section \<open>Properties of the session loop\<close>

lemma whitespace_nonempty: "p \<in> set whitespace \<Longrightarrow> p \<noteq> []"
  by (auto simp add: whitespace_def)

lemma whitespace_prefix_free_all:
  "list_all (\<lambda>p. list_all (\<lambda>x. prefix p x \<longrightarrow> p = x) whitespace) whitespace"
  by code_simp

lemma whitespace_prefix_free:
  "p \<in> set whitespace \<Longrightarrow> x \<in> set whitespace \<Longrightarrow> prefix p x \<Longrightarrow> p = x"
  using whitespace_prefix_free_all by (auto simp add: list_all_iff)

lemma strip_leading_Nil: "strip_leading pats [] = []"
proof -
  have "List.find (\<lambda>p. p \<noteq> [] \<and> prefix p []) pats = None"
    by (simp add: find_None_iff)
  then show ?thesis by (simp add: strip_leading.simps)
qed

lemma lstrip_space:
  assumes "x \<in> set whitespace"
  shows "lstrip (x @ r) = lstrip r"
proof -
  have "List.find (\<lambda>p. p \<noteq> [] \<and> prefix p (x @ r)) whitespace \<noteq> None"
    using assms whitespace_nonempty [OF assms] by (auto simp add: find_None_iff)
  then obtain p where f: "List.find (\<lambda>p. p \<noteq> [] \<and> prefix p (x @ r)) whitespace = Some p"
    by blast
  then have p: "p \<in> set whitespace" and pre: "prefix p (x @ r)"
    by (auto simp add: find_Some_iff)
  have "prefix p x \<or> prefix x p"
    using pre by (meson prefix_append prefix_order.dual_order.refl prefix_same_cases)
  then have "p = x"
    using whitespace_prefix_free [OF p assms] whitespace_prefix_free [OF assms p] by auto
  then show ?thesis
    unfolding lstrip_def using f by (subst strip_leading.simps) simp
qed

lemma lstrip_blank: "set ws \<subseteq> set whitespace \<Longrightarrow> lstrip (concat ws) = []"
proof (induction ws)
  case Nil
  show ?case by (simp add: lstrip_def strip_leading_Nil)
next
  case (Cons x ws)
  then show ?case by (simp add: lstrip_space)
qed

lemma strip_blank: "set ws \<subseteq> set whitespace \<Longrightarrow> strip (concat ws) = []"
  by (simp add: strip_def lstrip_blank rstrip_def strip_leading_Nil)

lemma loop_iteration_blank:
  "strip l = [] \<Longrightarrow> loop_iteration a w h (Line l) = quiet h [] Continue"
  by (simp add: loop_iteration_def Let_def)

lemma loop_iteration_command:
  "startswith (strip l) '':'' \<Longrightarrow> loop_iteration a w h (Line l) = command w h (strip l)"
  by (auto simp add: loop_iteration_def Let_def startswith_def)

lemma command_lowered:
  "split_maxsplit1 u = p0 # ps \<Longrightarrow> split_maxsplit1 u' = p0' # ps \<Longrightarrow>
   lower (str_lower w) p0 = lower (str_lower w) p0' \<Longrightarrow> command w h u = command w h u'"
  by (simp add: command_def Let_def)

lemma lower_char_simps:
  "lower_char c = (case map_of (zip ''ABCDEFGHIJKLMNOPQRSTUVWXYZ'' ''abcdefghijklmnopqrstuvwxyz'') c
                   of Some d \<Rightarrow> d | None \<Rightarrow> c)"
  by (simp add: lower_char_def upper_letters_def lower_letters_def)

lemma command_quit:
  "split_maxsplit1 u = p0 # ps \<Longrightarrow>
   lower (str_lower w) p0 \<in> set ['':quit'', '':q'', '':exit''] \<Longrightarrow>
   command w h u = quiet h [''Bye! '' @ sponge] Break"
  by (simp add: command_def Let_def)

lemma command_help:
  "split_maxsplit1 u = p0 # ps \<Longrightarrow> lower (str_lower w) p0 = '':help'' \<Longrightarrow>
   command w h u = quiet h help_lines Continue"
  by (simp add: command_def Let_def)

lemma command_reset:
  "split_maxsplit1 u = p0 # ps \<Longrightarrow> lower (str_lower w) p0 = '':reset'' \<Longrightarrow>
   command w (h0 # rest) u = quiet [h0] [''History cleared (system prompt kept).''] Continue"
  by (simp add: command_def Let_def)

lemma command_history:
  "\<exists>rest'. history (command w (s # rest) u) = s # rest' \<and> (rest' = [] \<or> rest' = rest)"
  by (auto simp add: command_def Let_def quiet_def fatal_def split: list.splits sum.splits prod.splits)


lemma mk_message_role: "mk_message r c ''role'' = Some (JStr r)"
  by (simp add: mk_message_def)

lemma chat_turn_history:
  "\<exists>m. history (chat_turn a w h u) = h @ [mk_message ''user'' (JStr u), m]
       \<and> m ''role'' = Some (JStr ''assistant'')"
proof -
  obtain trimmed where t: "truncate_history (h @ [mk_message ''user'' (JStr u)]) (max_turns a)
      = Inr trimmed"
    using truncate_history_append_Inr [of h "mk_message ''user'' (JStr u)" "max_turns a"]
    by (elim exE)
  show ?thesis
  proof (cases "call_api w (url a) (model a) trimmed (temperature a) (timeout a)")
    case (Inl e)
    show ?thesis
      unfolding chat_turn_failure [OF t Inl] by (simp add: mk_message_role)
  next
    case (Inr reply)
    show ?thesis
      unfolding chat_turn_success [OF t Inr] by (simp add: mk_message_role)
  qed
qed

lemma loop_iteration_cases:
  "loop_iteration a w h ev = quiet h [newline @ ''Bye! '' @ sponge] Break
   \<or> loop_iteration a w h ev = quiet h [] Continue
   \<or> (\<exists>u. loop_iteration a w h ev = command w h u)
   \<or> (\<exists>u. loop_iteration a w h ev = chat_turn a w h u)"
  by (cases ev) (auto simp add: loop_iteration_def Let_def)

lemma loop_iteration_keeps_first:
  assumes "list_all (\<lambda>m. m ''role'' = Some (JStr ''user'') \<or> m ''role'' = Some (JStr ''assistant'')) rest"
  shows "\<exists>rest'. history (loop_iteration a w (s # rest) ev) = s # rest'
           \<and> list_all (\<lambda>m. m ''role'' = Some (JStr ''user'')
                            \<or> m ''role'' = Some (JStr ''assistant'')) rest'"
proof -
  consider
      (stop) "loop_iteration a w (s # rest) ev = quiet (s # rest) [newline @ ''Bye! '' @ sponge] Break"
    | (blank) "loop_iteration a w (s # rest) ev = quiet (s # rest) [] Continue"
    | (cmd) u where "loop_iteration a w (s # rest) ev = command w (s # rest) u"
    | (chat) u where "loop_iteration a w (s # rest) ev = chat_turn a w (s # rest) u"
    using loop_iteration_cases [of a w "s # rest" ev] by blast
  then show ?thesis
  proof cases
    case stop
    then show ?thesis using assms by (simp add: quiet_def)
  next
    case blank
    then show ?thesis using assms by (simp add: quiet_def)
  next
    case cmd
    obtain rest' where "history (command w (s # rest) u) = s # rest'"
      and "rest' = [] \<or> rest' = rest"
      using command_history [of w s rest u] by blast
    then show ?thesis using assms cmd by auto
  next
    case chat
    obtain m where "history (chat_turn a w (s # rest) u)
        = (s # rest) @ [mk_message ''user'' (JStr u), m]"
      and "m ''role'' = Some (JStr ''assistant'')"
      using chat_turn_history [of a w "s # rest" u] by blast
    then show ?thesis using assms chat by (simp add: mk_message_role)
  qed
qed

lemma run_keeps_first:
  assumes "list_all (\<lambda>m. m ''role'' = Some (JStr ''user'') \<or> m ''role'' = Some (JStr ''assistant'')) rest"
  shows "\<exists>rest'. history (run a evs (s # rest)) = s # rest'
           \<and> list_all (\<lambda>m. m ''role'' = Some (JStr ''user'')
                            \<or> m ''role'' = Some (JStr ''assistant'')) rest'"
  using assms
proof (induction evs arbitrary: rest)
  case Nil
  then show ?case by (simp add: quiet_def)
next
  case (Cons x evs)
  obtain w ev where x: "x = (w, ev)" by (cases x)
  obtain r1 where r1: "history (loop_iteration a w (s # rest) ev) = s # r1"
    and p1: "list_all (\<lambda>m. m ''role'' = Some (JStr ''user'')
                            \<or> m ''role'' = Some (JStr ''assistant'')) r1"
    using loop_iteration_keeps_first [OF Cons.prems, of a w s ev] by blast
  show ?case
  proof (cases "control (loop_iteration a w (s # rest) ev) = Continue")
    case True
    then show ?thesis using Cons.IH [OF p1] r1 x by (simp add: Let_def)
  next
    case False
    then show ?thesis using r1 p1 x by (simp add: Let_def)
  qed
qed

lemma main_keeps_system:
  "\<exists>rest. history (main a evs) = mk_message ''system'' (JStr (system_prompt a)) # rest
      \<and> list_all (\<lambda>m. m ''role'' = Some (JStr ''user'')
                       \<or> m ''role'' = Some (JStr ''assistant'')) rest"
  unfolding main_def initial_history_def
  by (rule run_keeps_first) simp

section \<open>Properties of the remote client\<close>

lemma call_api_not_200:
  assumes "post w u \<lparr>p_model = mdl, p_messages = msgs, p_temperature = temp\<rparr> t
             = Responded resp"
    and "status_code resp \<noteq> 200"
  shows "call_api w u mdl msgs temp t
           = Inl (RuntimeError (''HTTP '' @ str_int (status_code resp) @ '': '' @ resp_text resp))"
  using assms by (simp add: call_api_def)

lemma call_api_200:
  assumes "post w u \<lparr>p_model = mdl, p_messages = msgs, p_temperature = temp\<rparr> t
             = Responded resp"
    and "status_code resp = 200"
  shows "call_api w u mdl msgs temp t
           = (case resp_json resp of
                Inl e \<Rightarrow> Inl e
              | Inr data \<Rightarrow>
                  (case extract_reply data of
                     Some reply \<Rightarrow> Inr reply
                   | None \<Rightarrow> Inl (RuntimeError
                                   (''Unexpected response format: '' @ json_dumps w data))))"
  using assms by (simp add: call_api_def)

lemma sublist_http_code: "sublist code (pre @ ''HTTP '' @ code @ '': '' @ raw @ suf)"
  unfolding sublist_def
  by (rule exI [of _ "pre @ ''HTTP ''"], rule exI [of _ "'': '' @ raw @ suf"]) simp

lemma sublist_http_raw: "sublist raw (pre @ ''HTTP '' @ code @ '': '' @ raw @ suf)"
  unfolding sublist_def
  by (rule exI [of _ "pre @ ''HTTP '' @ code @ '': ''"], rule exI [of _ "suf"]) simp

lemma str_int_500: "str_int 500 = ''500''"
  by (simp add: str_int_def digits.simps digit_char_def)

lemma post_answering:
  "post (answering sc raw data) u p t
     = Responded \<lparr>status_code = sc, resp_text = raw, resp_json = Inr data\<rparr>"
  by (simp add: answering_def)

lemma variant_lines:
  "strip '':QUIT'' = '':QUIT'' \<and> strip '':quit'' = '':quit''
   \<and> strip '':Help'' = '':Help'' \<and> strip '':help'' = '':help''
   \<and> strip '':Reset'' = '':Reset'' \<and> strip '':reset'' = '':reset''"
  by code_simp

lemma variant_tokens:
  "split_maxsplit1 '':QUIT'' = ['':QUIT''] \<and> split_maxsplit1 '':quit'' = ['':quit'']
   \<and> split_maxsplit1 '':Help'' = ['':Help''] \<and> split_maxsplit1 '':help'' = ['':help'']
   \<and> split_maxsplit1 '':Reset'' = ['':Reset''] \<and> split_maxsplit1 '':reset'' = ['':reset'']"
  by code_simp

lemma variant_lower:
  "lower f '':QUIT'' = '':quit'' \<and> lower f '':quit'' = '':quit''
   \<and> lower f '':Help'' = '':help'' \<and> lower f '':help'' = '':help''
   \<and> lower f '':Reset'' = '':reset'' \<and> lower f '':reset'' = '':reset''"
  by (simp add: lower_def is_ascii_def lower_char_simps)

lemma loop_iteration_first:
  "\<exists>rest'. history (loop_iteration a w (s # rest) ev) = s # rest'"
proof -
  consider
      (stop) "loop_iteration a w (s # rest) ev = quiet (s # rest) [newline @ ''Bye! '' @ sponge] Break"
    | (blank) "loop_iteration a w (s # rest) ev = quiet (s # rest) [] Continue"
    | (cmd) u where "loop_iteration a w (s # rest) ev = command w (s # rest) u"
    | (chat) u where "loop_iteration a w (s # rest) ev = chat_turn a w (s # rest) u"
    using loop_iteration_cases [of a w "s # rest" ev] by blast
  then show ?thesis
  proof cases
    case stop
    then show ?thesis by (simp add: quiet_def)
  next
    case blank
    then show ?thesis by (simp add: quiet_def)
  next
    case cmd
    obtain rest' where "history (command w (s # rest) u) = s # rest'"
      using command_history [of w s rest u] by blast
    then show ?thesis using cmd by simp
  next
    case chat
    obtain m where "history (chat_turn a w (s # rest) u)
        = (s # rest) @ [mk_message ''user'' (JStr u), m]"
      using chat_turn_history [of a w "s # rest" u] by blast
    then show ?thesis using chat by simp
  qed
qed

lemma run_after_continue:
  "control (loop_iteration a w h ev) = Continue \<Longrightarrow>
   history (run a ((w, ev) # evs) h) = history (run a evs (history (loop_iteration a w h ev)))"
  by (simp add: Let_def)

lemma str_int_201: "str_int 201 = ''201''"
  by (simp add: str_int_def digits.simps digit_char_def)

lemma str_int_404: "str_int 404 = ''404''"
  by (simp add: str_int_def digits.simps digit_char_def)

section \<open>Properties of the transcript\<close>

lemma split_label_step:
  "x \<noteq> CHR '':'' \<Longrightarrow> ys \<noteq> [] \<Longrightarrow> split_label acc (x # ys) = split_label (x # acc) ys"
  by (cases ys) simp_all

lemma split_label_entry:
  "CHR '':'' \<notin> set r \<Longrightarrow> split_label acc (r @ '': '' @ c) = Some (rev acc @ r, c)"
proof (induction r arbitrary: acc)
  case Nil
  show ?case by simp
next
  case (Cons x xs)
  have "split_label acc (x # (xs @ '': '' @ c)) = split_label (x # acc) (xs @ '': '' @ c)"
    using Cons.prems by (intro split_label_step) auto
  then show ?case using Cons by simp
qed

lemma split_entries_step:
  "\<not> (x = CHR 0x0A \<and> hd ys = CHR 0x0A) \<Longrightarrow> ys \<noteq> [] \<Longrightarrow>
   split_entries acc (x # ys) = split_entries (x # acc) ys"
  by (cases ys) auto

lemma split_entries_entry:
  assumes "\<not> sublist [CHR 0x0A, CHR 0x0A] e" and "\<not> suffix [CHR 0x0A] e"
  shows "split_entries acc (e @ CHR 0x0A # CHR 0x0A # rest) = (rev acc @ e) # split_entries [] rest"
  using assms
proof (induction e arbitrary: acc)
  case Nil
  show ?case by simp
next
  case (Cons x xs)
  have nb: "\<not> sublist [CHR 0x0A, CHR 0x0A] xs" and np: "\<not> prefix [CHR 0x0A, CHR 0x0A] (x # xs)"
    using Cons.prems(1) by (simp_all add: sublist_Cons_right)
  have ns: "\<not> suffix [CHR 0x0A] xs" and ne: "[CHR 0x0A] \<noteq> x # xs"
    using Cons.prems(2) by (simp_all add: suffix_Cons)
  have hd: "\<not> (x = CHR 0x0A \<and> hd (xs @ CHR 0x0A # CHR 0x0A # rest) = CHR 0x0A)"
    using np ne by (cases xs) auto
  have "split_entries acc (x # (xs @ CHR 0x0A # CHR 0x0A # rest))
          = split_entries (x # acc) (xs @ CHR 0x0A # CHR 0x0A # rest)"
    using hd by (intro split_entries_step) simp_all
  then show ?case using Cons.IH [OF nb ns, of "x # acc"] by simp
qed

lemma entry_no_blank_line:
  assumes "CHR 0x0A \<notin> set r" and "\<not> sublist [CHR 0x0A, CHR 0x0A] c" and "\<not> suffix [CHR 0x0A] c"
  shows "\<not> sublist [CHR 0x0A, CHR 0x0A] (r @ '': '' @ c) \<and> \<not> suffix [CHR 0x0A] (r @ '': '' @ c)"
  using assms by (induction r) (auto simp add: sublist_Cons_right suffix_Cons)

lemma upper_char_simps:
  "upper_char c = (case map_of (zip ''abcdefghijklmnopqrstuvwxyz'' ''ABCDEFGHIJKLMNOPQRSTUVWXYZ'') c
                   of Some d \<Rightarrow> d | None \<Rightarrow> c)"
  by (simp add: upper_char_def upper_letters_def lower_letters_def)

lemma lower_char_colon: "CHR '':'' = lower_char c \<Longrightarrow> c = CHR '':''"
  by (auto simp add: lower_char_simps split: if_splits)

lemma lower_char_newline: "CHR 0x0A = lower_char c \<Longrightarrow> c = CHR 0x0A"
  by (auto simp add: lower_char_simps split: if_splits)

lemma upper_char_colon: "CHR '':'' = upper_char c \<Longrightarrow> c = CHR '':''"
  by (auto simp add: upper_char_simps split: if_splits)

lemma upper_char_newline: "CHR 0x0A = upper_char c \<Longrightarrow> c = CHR 0x0A"
  by (auto simp add: upper_char_simps split: if_splits)

lemma capitalize_no_colon: "CHR '':'' \<notin> set r \<Longrightarrow> CHR '':'' \<notin> set (capitalize r)"
  by (cases r) (auto simp add: capitalize_def dest: lower_char_colon upper_char_colon)

lemma capitalize_no_newline: "CHR 0x0A \<notin> set r \<Longrightarrow> CHR 0x0A \<notin> set (capitalize r)"
  by (cases r) (auto simp add: capitalize_def dest: lower_char_newline upper_char_newline)


lemma transcript_entry_text:
  "transcript_entry w (mk_message r (JStr c))
     = Inr (capitalize r @ '': '' @ c @ [CHR 0x0A, CHR 0x0A])"
  by (simp add: transcript_entry_def mk_message_def get_def format_value_def newline_def)

lemma transcript_text_pairs:
  "transcript_text w (map (\<lambda>(r, c). mk_message r (JStr c)) ps)
     = Inr (concat (map (\<lambda>(r, c). capitalize r @ '': '' @ c @ [CHR 0x0A, CHR 0x0A]) ps))"
  by (induction ps) (auto simp add: transcript_entry_text)

lemma split_entries_pairs:
  assumes "\<forall>(r, c)\<in>set ps. CHR 0x0A \<notin> set r
              \<and> \<not> sublist [CHR 0x0A, CHR 0x0A] c \<and> \<not> suffix [CHR 0x0A] c"
  shows "split_entries []
           (concat (map (\<lambda>(r, c). capitalize r @ '': '' @ c @ [CHR 0x0A, CHR 0x0A]) ps))
         = map (\<lambda>(r, c). capitalize r @ '': '' @ c) ps"
  using assms
proof (induction ps)
  case Nil
  show ?case by simp
next
  case (Cons x ps)
  obtain r c where x: "x = (r, c)" by (cases x)
  have e: "\<not> sublist [CHR 0x0A, CHR 0x0A] (capitalize r @ '': '' @ c)
           \<and> \<not> suffix [CHR 0x0A] (capitalize r @ '': '' @ c)"
    using Cons.prems x by (intro entry_no_blank_line capitalize_no_newline) auto
  have "split_entries []
          ((capitalize r @ '': '' @ c) @ CHR 0x0A # CHR 0x0A
             # concat (map (\<lambda>(r, c). capitalize r @ '': '' @ c @ [CHR 0x0A, CHR 0x0A]) ps))
        = (rev [] @ (capitalize r @ '': '' @ c))
            # split_entries []
                (concat (map (\<lambda>(r, c). capitalize r @ '': '' @ c @ [CHR 0x0A, CHR 0x0A]) ps))"
    using e by (intro split_entries_entry) simp_all
  then show ?case using Cons x by simp
qed

lemma parse_entries_pairs:
  assumes "\<forall>(r, c)\<in>set ps. CHR '':'' \<notin> set r"
  shows "those (map (split_label []) (map (\<lambda>(r, c). capitalize r @ '': '' @ c) ps))
         = Some (map (\<lambda>(r, c). (capitalize r, c)) ps)"
  using assms
proof (induction ps)
  case Nil
  show ?case by simp
next
  case (Cons x ps)
  obtain r c where x: "x = (r, c)" by (cases x)
  have "split_label [] (capitalize r @ '': '' @ c) = Some (rev [] @ capitalize r, c)"
    using Cons.prems x by (intro split_label_entry capitalize_no_colon) simp
  then show ?case using Cons x by simp
qed

lemma save_transcript_text:
  "save_transcript w h path = Inr (p, tx) \<Longrightarrow> transcript_text w h = Inr tx"
  by (auto simp add: save_transcript_def split: sum.splits option.splits)

lemma capitalize_roles:
  "capitalize ''system'' = ''System'' \<and> capitalize ''user'' = ''User''
   \<and> capitalize ''assistant'' = ''Assistant''"
  by (simp add: capitalize_def upper_char_simps lower_char_simps)

lemma save_transcript_answering:
  "transcript_text (answering sc raw data) h = Inr tx \<Longrightarrow>
   save_transcript (answering sc raw data) h path = Inr (''/home/bob/'' @ path, tx)"
  by (simp add: save_transcript_def answering_def)

section \<open>The claims about the window\<close>

text \<open>
  Claim C1. When the first element of the list is the system message \<open>s\<close>, \<open>body\<close> the
  \<open>n\<close> messages after it and \<open>k > 0\<close>, \<open>truncate_history\<close> returns \<open>s\<close> followed by
  the last \<open>min(n, 2k)\<close> messages of \<open>body\<close> in their order, which is all of \<open>body\<close>
  when \<open>n < 2k\<close>. In a session with \<open>max_turns = 1\<close>, the turns \<open>hi\<close> and \<open>bye\<close>, the
  first answered with \<open>reply1\<close>, submit first the system message and \<open>hi\<close>, and then the
  system message, the assistant's \<open>reply1\<close> and \<open>bye\<close>.
\<close>

theorem truncate_history_keeps_last_pairs:
  "0 < k \<Longrightarrow>
   truncate_history (s # body) k
     = Inr (s # drop (length body - min (length body) (nat (2 * k))) body)
   \<and> length (drop (length body - min (length body) (nat (2 * k))) body)
       = min (length body) (nat (2 * k))
   \<and> (int (length body) < 2 * k \<longrightarrow> truncate_history (s # body) k = Inr (s # body))
   \<and> (max_turns a = 1
        \<and> call_api w1 (url a) (model a)
             [mk_message ''system'' (JStr (system_prompt a)), mk_message ''user'' (JStr ''hi'')]
             (temperature a) (timeout a) = Inr reply1
       \<longrightarrow> submitted (main a [(w1, Line ''hi''), (w2, Line ''bye'')]) =
             [[mk_message ''system'' (JStr (system_prompt a)),
               mk_message ''user'' (JStr ''hi'')],
              [mk_message ''system'' (JStr (system_prompt a)),
               mk_message ''assistant'' reply1,
               mk_message ''user'' (JStr ''bye'')]])"
proof -
  assume k: "0 < k"
  have d: "length body - min (length body) (nat (2 * k)) = length body - nat (2 * k)"
    by simp
  have a1: "truncate_history (s # body) k
              = Inr (s # drop (length body - min (length body) (nat (2 * k))) body)"
    unfolding d by (rule truncate_history_Cons [OF k])
  have a2: "length (drop (length body - min (length body) (nat (2 * k))) body)
              = min (length body) (nat (2 * k))"
    by simp
  have a3: "int (length body) < 2 * k \<longrightarrow> truncate_history (s # body) k = Inr (s # body)"
    using truncate_history_Cons [OF k, of s body] by simp
  show ?thesis
    using a1 a2 a3 scenario_two_turns [of a w1 reply1 w2] by blast
qed

theorem truncate_history_keeps_last_pairs_witness:
  "truncate_history [0, 1, 2, 3, 4 :: nat] 1 = Inr [0, 3, 4]
   \<and> truncate_history [0, 1 :: nat] 1 = Inr [0, 1]
   \<and> submitted (main one_pair
        [(answering 200 ''{}'' (completion (JStr ''Ahoy!'')), Line ''hi''),
         (answering 200 ''{}'' (completion (JStr ''Bye!'')), Line ''bye'')]) =
       [[mk_message ''system'' (JStr (system_prompt one_pair)),
         mk_message ''user'' (JStr ''hi'')],
        [mk_message ''system'' (JStr (system_prompt one_pair)),
         mk_message ''assistant'' (JStr ''Ahoy!''),
         mk_message ''user'' (JStr ''bye'')]]"
proof -
  have k: "(0::int) < 1" by simp
  have m: "max_turns one_pair = 1" by (simp add: one_pair_def)
  have c: "call_api (answering 200 ''{}'' (completion (JStr ''Ahoy!''))) (url one_pair)
             (model one_pair)
             [mk_message ''system'' (JStr (system_prompt one_pair)),
              mk_message ''user'' (JStr ''hi'')]
             (temperature one_pair) (timeout one_pair) = Inr (JStr ''Ahoy!'')"
    by (rule call_api_answering_200 [OF extract_reply_completion])
  have w5: "truncate_history [0, 1, 2, 3, 4 :: nat] 1 = Inr [0, 3, 4]"
    using truncate_history_keeps_last_pairs [OF k, of 0 "[1, 2, 3, 4 :: nat]"] by simp
  have w2: "truncate_history [0, 1 :: nat] 1 = Inr [0, 1]"
    using truncate_history_keeps_last_pairs [OF k, of 0 "[1 :: nat]"] by simp
  show ?thesis
    using w5 w2 m c
      truncate_history_keeps_last_pairs [OF k, of "0::nat" "[]" one_pair
        "answering 200 ''{}'' (completion (JStr ''Ahoy!''))" "JStr ''Ahoy!''"
        "answering 200 ''{}'' (completion (JStr ''Bye!''))"]
    by blast
qed

text \<open>
  Claim C2. When the first element of the list is the system message \<open>s\<close> and
  \<open>max_pairs \<le> 0\<close>, \<open>truncate_history\<close> returns the list of \<open>s\<close> alone.
\<close>

theorem truncate_history_nonpositive:
  "k \<le> 0 \<Longrightarrow> truncate_history (s # rest) k = Inr [s]"
  by (simp add: truncate_history_def)

theorem truncate_history_nonpositive_witness:
  "truncate_history [0, 1, 2, 3 :: nat] 0 = Inr [0]
   \<and> truncate_history [0, 1, 2, 3 :: nat] (- 5) = Inr [0]"
proof -
  have z: "(0::int) \<le> 0" and n: "(- 5 :: int) \<le> 0" by simp_all
  show ?thesis
    using truncate_history_nonpositive [OF z, of "0::nat" "[1, 2, 3]"]
      truncate_history_nonpositive [OF n, of "0::nat" "[1, 2, 3]"]
    by simp
qed

text \<open>
  Claim C9. On a list that is not empty \<open>truncate_history\<close> returns a value, whatever
  \<open>max_pairs\<close> is. On the empty list it returns (the empty list) when
  \<open>max_pairs \<le> 0\<close>, and raises \<open>IndexError\<close> at \<open>history[0]\<close> when \<open>max_pairs > 0\<close>.
\<close>

theorem truncate_history_total:
  "(h \<noteq> [] \<longrightarrow> (\<exists>r. truncate_history h k = Inr r))
   \<and> (k \<le> 0 \<longrightarrow> truncate_history [] k = Inr [])
   \<and> (0 < k \<longrightarrow> truncate_history [] k = Inl IndexError)"
  by (cases h) (auto simp: truncate_history_def Let_def)

theorem truncate_history_total_witness:
  "(\<exists>r. truncate_history [7 :: nat] 3 = Inr r)
   \<and> truncate_history ([] :: nat list) 0 = Inr []
   \<and> truncate_history ([] :: nat list) 3 = Inl IndexError"
proof -
  have "(\<exists>r. truncate_history [7 :: nat] 3 = Inr r)"
    using truncate_history_total [of "[7 :: nat]" 3] by blast
  moreover have "truncate_history ([] :: nat list) 0 = Inr []"
    using truncate_history_total [of "[] :: nat list" 0] by simp
  moreover have "truncate_history ([] :: nat list) 3 = Inl IndexError"
    using truncate_history_total [of "[] :: nat list" 3] by simp
  ultimately show ?thesis by blast
qed

section \<open>The claims about the session loop\<close>

text \<open>
  Claim C7. When the line read is empty or made of whitespace only, that is, of any
  number of the characters with \<open>str.isspace\<close>, the iteration leaves the history as it
  is, makes no \<open>print\<close> call, hands nothing to \<open>call_api\<close> (no network call) and writes
  no file; the loop goes on. The prompt \<open>You: \<close> belongs to the reading of the line by
  \<open>input\<close>, before the line exists; nothing is printed once the line is read.
\<close>

theorem blank_line_is_ignored:
  "set ws \<subseteq> set whitespace \<Longrightarrow>
   loop_iteration a w h (Line (concat ws)) =
     \<lparr>history = h, printed = [], submitted = [], written = [], control = Continue\<rparr>"
  using loop_iteration_blank [OF strip_blank, of ws a w h] by (simp add: quiet_def)

theorem blank_line_is_ignored_witness:
  "loop_iteration one_pair (answering 200 ''{}'' JNull) (initial_history one_pair)
       (Line [CHR 0xC2, CHR 0xA0, CHR 0x20, CHR 0xE3, CHR 0x80, CHR 0x80, CHR 0x09]) =
     \<lparr>history = initial_history one_pair, printed = [], submitted = [], written = [],
      control = Continue\<rparr>
   \<and> loop_iteration one_pair (answering 200 ''{}'' JNull) (initial_history one_pair) (Line []) =
     \<lparr>history = initial_history one_pair, printed = [], submitted = [], written = [],
      control = Continue\<rparr>"
proof -
  have s: "set [[CHR 0xC2, CHR 0xA0], [CHR 0x20], [CHR 0xE3, CHR 0x80, CHR 0x80], [CHR 0x09]]
             \<subseteq> set whitespace"
    by (simp add: whitespace_def)
  have e: "set [] \<subseteq> set whitespace"
    by simp
  show ?thesis
    using blank_line_is_ignored [OF s] blank_line_is_ignored [OF e] by simp
qed

text \<open>
  Claim C10. The keyword of a command is matched without regard to case: the first token
  of a line that starts with the sigil is lowercased before the dispatch, so two lines
  whose first tokens are equal once lowercased, with the same argument, give the same
  iteration. In particular \<open>:QUIT\<close>, \<open>:Help\<close> and \<open>:Reset\<close> do what \<open>:quit\<close>,
  \<open>:help\<close> and \<open>:reset\<close> do: they leave the loop, print the help, and clear the
  history.
\<close>

theorem command_keyword_is_lowercased:
  "(startswith (strip l1) '':'' \<and> startswith (strip l2) '':''
    \<and> split_maxsplit1 (strip l1) = c1 # ps \<and> split_maxsplit1 (strip l2) = c2 # ps
    \<and> lower (str_lower w) c1 = lower (str_lower w) c2
    \<longrightarrow> loop_iteration a w h (Line l1) = loop_iteration a w h (Line l2))
   \<and> loop_iteration a w h (Line '':QUIT'') = loop_iteration a w h (Line '':quit'')
   \<and> loop_iteration a w h (Line '':Help'') = loop_iteration a w h (Line '':help'')
   \<and> loop_iteration a w h (Line '':Reset'') = loop_iteration a w h (Line '':reset'')
   \<and> loop_iteration a w h (Line '':QUIT'') = quiet h [''Bye! '' @ sponge] Break
   \<and> loop_iteration a w h (Line '':Help'') = quiet h help_lines Continue
   \<and> loop_iteration a w (h0 # rest) (Line '':Reset'')
       = quiet [h0] [''History cleared (system prompt kept).''] Continue"
proof -
  have g: "loop_iteration a w h (Line x1) = loop_iteration a w h (Line x2)"
    if "startswith (strip x1) '':''" and "startswith (strip x2) '':''"
      and "split_maxsplit1 (strip x1) = d1 # qs" and "split_maxsplit1 (strip x2) = d2 # qs"
      and "lower (str_lower w) d1 = lower (str_lower w) d2"
    for x1 x2 d1 d2 qs
    using that command_lowered [of "strip x1" d1 qs "strip x2" d2 w h]
    by (simp add: loop_iteration_command)
  note v = variant_lines variant_tokens variant_lower [of "str_lower w"] startswith_def
  have q: "loop_iteration a w h (Line '':QUIT'') = loop_iteration a w h (Line '':quit'')"
    by (rule g [of _ _ "'':QUIT''" "[]" "'':quit''"]) (simp_all add: v)
  have p: "loop_iteration a w h (Line '':Help'') = loop_iteration a w h (Line '':help'')"
    by (rule g [of _ _ "'':Help''" "[]" "'':help''"]) (simp_all add: v)
  have r: "loop_iteration a w h (Line '':Reset'') = loop_iteration a w h (Line '':reset'')"
    by (rule g [of _ _ "'':Reset''" "[]" "'':reset''"]) (simp_all add: v)
  have cq: "command w h '':QUIT'' = quiet h [''Bye! '' @ sponge] Break"
    by (rule command_quit [of _ "'':QUIT''" "[]"]) (simp_all add: v)
  have cp: "command w h '':Help'' = quiet h help_lines Continue"
    by (rule command_help [of _ "'':Help''" "[]"]) (simp_all add: v)
  have cr: "command w (h0 # rest) '':Reset''
              = quiet [h0] [''History cleared (system prompt kept).''] Continue"
    by (rule command_reset [of _ "'':Reset''" "[]"]) (simp_all add: v)
  have dq: "loop_iteration a w h (Line '':QUIT'') = quiet h [''Bye! '' @ sponge] Break"
    using loop_iteration_command [of "'':QUIT''" a w h] cq by (simp add: v)
  have dp: "loop_iteration a w h (Line '':Help'') = quiet h help_lines Continue"
    using loop_iteration_command [of "'':Help''" a w h] cp by (simp add: v)
  have dr: "loop_iteration a w (h0 # rest) (Line '':Reset'')
              = quiet [h0] [''History cleared (system prompt kept).''] Continue"
    using loop_iteration_command [of "'':Reset''" a w "h0 # rest"] cr by (simp add: v)
  show ?thesis using g q p r dq dp dr by blast
qed

theorem command_keyword_is_lowercased_witness:
  "loop_iteration one_pair (answering 200 ''{}'' JNull) (initial_history one_pair)
      (Line ('':SAVE'' @ [CHR 0xC2, CHR 0xA0] @ ''notes.txt''))
   = loop_iteration one_pair (answering 200 ''{}'' JNull) (initial_history one_pair)
      (Line '':save notes.txt'')
   \<and> loop_iteration one_pair (answering 200 ''{}'' JNull) (initial_history one_pair)
      (Line ('':Exit'' @ [CHR 0xE3, CHR 0x80, CHR 0x80]))
   = loop_iteration one_pair (answering 200 ''{}'' JNull) (initial_history one_pair)
      (Line '':exit'')
   \<and> loop_iteration one_pair (answering 200 ''{}'' JNull) (initial_history one_pair)
      (Line ('':'' @ [CHR 0xC3, CHR 0x89] @ ''T'' @ [CHR 0xC3, CHR 0x89]))
   = loop_iteration one_pair (answering 200 ''{}'' JNull) (initial_history one_pair)
      (Line ('':'' @ [CHR 0xC3, CHR 0xA9] @ ''t'' @ [CHR 0xC3, CHR 0xA9]))"
proof -
  let ?w = "answering 200 ''{}'' JNull"
  let ?E = "'':'' @ [CHR 0xC3, CHR 0x89] @ ''T'' @ [CHR 0xC3, CHR 0x89]"
  let ?e = "'':'' @ [CHR 0xC3, CHR 0xA9] @ ''t'' @ [CHR 0xC3, CHR 0xA9]"
  have y: "startswith (strip ?E) '':'' \<and> startswith (strip ?e) '':''
    \<and> split_maxsplit1 (strip ?E) = ?E # []
    \<and> split_maxsplit1 (strip ?e) = ?e # []
    \<and> lower (str_lower ?w) ?E = lower (str_lower ?w) ?e"
    by code_simp
  have ss: "strip ('':SAVE'' @ [CHR 0xC2, CHR 0xA0] @ ''notes.txt'')
              = '':SAVE'' @ [CHR 0xC2, CHR 0xA0] @ ''notes.txt''
            \<and> strip '':save notes.txt'' = '':save notes.txt''
            \<and> strip ('':Exit'' @ [CHR 0xE3, CHR 0x80, CHR 0x80]) = '':Exit''
            \<and> strip '':exit'' = '':exit''"
    by code_simp
  have sp: "split_maxsplit1 ('':SAVE'' @ [CHR 0xC2, CHR 0xA0] @ ''notes.txt'')
              = ['':SAVE'', ''notes.txt'']
            \<and> split_maxsplit1 '':save notes.txt'' = ['':save'', ''notes.txt'']
            \<and> split_maxsplit1 '':Exit'' = ['':Exit'']
            \<and> split_maxsplit1 '':exit'' = ['':exit'']"
    by code_simp
  have lo: "lower (str_lower ?w) '':SAVE'' = lower (str_lower ?w) '':save''
            \<and> lower (str_lower ?w) '':Exit'' = lower (str_lower ?w) '':exit''"
    by (simp add: lower_def is_ascii_def lower_char_simps)
  have s: "startswith (strip ('':SAVE'' @ [CHR 0xC2, CHR 0xA0] @ ''notes.txt'')) '':''
    \<and> startswith (strip '':save notes.txt'') '':''
    \<and> split_maxsplit1 (strip ('':SAVE'' @ [CHR 0xC2, CHR 0xA0] @ ''notes.txt''))
          = '':SAVE'' # [''notes.txt'']
    \<and> split_maxsplit1 (strip '':save notes.txt'') = '':save'' # [''notes.txt'']
    \<and> lower (str_lower ?w) '':SAVE'' = lower (str_lower ?w) '':save''"
    using ss sp lo by (simp add: startswith_def)
  have x: "startswith (strip ('':Exit'' @ [CHR 0xE3, CHR 0x80, CHR 0x80])) '':''
    \<and> startswith (strip '':exit'') '':''
    \<and> split_maxsplit1 (strip ('':Exit'' @ [CHR 0xE3, CHR 0x80, CHR 0x80])) = '':Exit'' # []
    \<and> split_maxsplit1 (strip '':exit'') = '':exit'' # []
    \<and> lower (str_lower ?w) '':Exit'' = lower (str_lower ?w) '':exit''"
    using ss sp lo by (simp add: startswith_def)
  show ?thesis
    using
      command_keyword_is_lowercased [of "'':SAVE'' @ [CHR 0xC2, CHR 0xA0] @ ''notes.txt''"
        "'':save notes.txt''" "'':SAVE''" "[''notes.txt'']" "'':save''" ?w one_pair
        "initial_history one_pair", THEN conjunct1, THEN mp, OF s]
      command_keyword_is_lowercased [of "'':Exit'' @ [CHR 0xE3, CHR 0x80, CHR 0x80]"
        "'':exit''" "'':Exit''" "[]" "'':exit''" ?w one_pair
        "initial_history one_pair", THEN conjunct1, THEN mp, OF x]
      command_keyword_is_lowercased [of ?E ?e ?E "[]" ?e ?w one_pair
        "initial_history one_pair", THEN conjunct1, THEN mp, OF y]
    by simp
qed

text \<open>
  Claim C5. In every state the session loop reaches, the history starts with the system
  message, whose content is the configured system directive, and no other entry has the
  role \<open>system\<close>: the entries after it are user and assistant messages. No iteration,
  whatever it reads and whatever the world does, removes or changes the first entry of a
  history.
\<close>

theorem system_message_stays_first:
  "(\<exists>rest. history (main a evs) = mk_message ''system'' (JStr (system_prompt a)) # rest
       \<and> list_all (\<lambda>m. m ''role'' = Some (JStr ''user'')
                        \<or> m ''role'' = Some (JStr ''assistant'')) rest)
   \<and> (\<exists>rest'. history (loop_iteration a w (s # rest0) ev) = s # rest')"
  using main_keeps_system [of a evs] loop_iteration_first [of a w s rest0 ev] by blast

theorem system_message_stays_first_witness:
  "\<exists>rest. history (main one_pair
         [(answering 200 ''{}'' (completion (JStr ''Ahoy!'')), Line ''hi''),
          (answering 200 ''{}'' JNull, Line '':save''),
          (answering 200 ''{}'' JNull, Line '':nonsense''),
          (answering 500 ''server exploded'' JNull, Line ''bye''),
          (answering 200 ''{}'' JNull, Line '':reset''),
          (answering 200 ''{}'' JNull, Line '':help''),
          (answering 200 ''{}'' JNull, EOFError)])
       = mk_message ''system'' (JStr (system_prompt one_pair)) # rest
     \<and> list_all (\<lambda>m. m ''role'' = Some (JStr ''user'')
                      \<or> m ''role'' = Some (JStr ''assistant'')) rest"
  using system_message_stays_first [of one_pair
         "[(answering 200 ''{}'' (completion (JStr ''Ahoy!'')), Line ''hi''),
          (answering 200 ''{}'' JNull, Line '':save''),
          (answering 200 ''{}'' JNull, Line '':nonsense''),
          (answering 500 ''server exploded'' JNull, Line ''bye''),
          (answering 200 ''{}'' JNull, Line '':reset''),
          (answering 200 ''{}'' JNull, Line '':help''),
          (answering 200 ''{}'' JNull, EOFError)]"]
  by blast

text \<open>
  Claim C6. The reset command, on any history that is not empty, leaves the history with
  its first entry alone; on a history the session has reached, that entry is the system
  message with the configured directive.
\<close>

theorem reset_keeps_only_system:
  "startswith (strip l) '':'' \<and> split_maxsplit1 (strip l) = p0 # ps
   \<and> lower (str_lower w) p0 = '':reset''
   \<longrightarrow> loop_iteration a w (h0 # rest) (Line l)
         = \<lparr>history = [h0], printed = [''History cleared (system prompt kept).''],
            submitted = [], written = [], control = Continue\<rparr>
       \<and> history (loop_iteration a w (history (main a evs)) (Line l))
           = [mk_message ''system'' (JStr (system_prompt a))]"
proof
  assume h: "startswith (strip l) '':'' \<and> split_maxsplit1 (strip l) = p0 # ps
             \<and> lower (str_lower w) p0 = '':reset''"
  have r: "loop_iteration a w (x # xs) (Line l)
             = quiet [x] [''History cleared (system prompt kept).''] Continue" for x xs
    using h command_reset [of "strip l" p0 ps w x xs] by (simp add: loop_iteration_command)
  obtain tl where m: "history (main a evs) = mk_message ''system'' (JStr (system_prompt a)) # tl"
    using main_keeps_system [of a evs] by blast
  show "loop_iteration a w (h0 # rest) (Line l)
         = \<lparr>history = [h0], printed = [''History cleared (system prompt kept).''],
            submitted = [], written = [], control = Continue\<rparr>
       \<and> history (loop_iteration a w (history (main a evs)) (Line l))
           = [mk_message ''system'' (JStr (system_prompt a))]"
    unfolding m r by (simp add: quiet_def)
qed

theorem reset_keeps_only_system_witness:
  "history (loop_iteration one_pair (answering 200 ''{}'' JNull)
      (history (main one_pair
         [(answering 200 ''{}'' (completion (JStr ''Ahoy!'')), Line ''hi''),
          (answering 500 ''server exploded'' JNull, Line ''bye'')]))
      (Line '':reset''))
   = [mk_message ''system'' (JStr DEFAULT_SYSTEM)]"
proof -
  have h: "startswith (strip '':reset'') '':'' \<and> split_maxsplit1 (strip '':reset'') = '':reset'' # []
           \<and> lower (str_lower (answering 200 ''{}'' JNull)) '':reset'' = '':reset''"
    by (simp add: variant_lines variant_tokens variant_lower startswith_def)
  have d: "system_prompt one_pair = DEFAULT_SYSTEM"
    by (simp add: system_prompt_def one_pair_def)
  show ?thesis
    using h reset_keeps_only_system [of "'':reset''" "'':reset''" "[]"
        "answering 200 ''{}'' JNull" one_pair _ _
        "[(answering 200 ''{}'' (completion (JStr ''Ahoy!'')), Line ''hi''),
          (answering 500 ''server exploded'' JNull, Line ''bye'')]"]
    by (simp add: d)
qed

text \<open>
  Claim C3. A chat turn whose remote call fails with an exception \<open>e\<close> is absorbed by
  the iteration: nothing is raised, the history grows by exactly two entries, the user
  message and an assistant entry whose content contains the text of \<open>e\<close>, and the
  loop goes on with the next input. When the failure is a response with a status other
  than 200, the content contains the status code and the raw body, as for status 500 and
  the body \<open>server exploded\<close>.
\<close>

theorem failed_turn_is_absorbed:
  "strip l \<noteq> [] \<and> \<not> startswith (strip l) '':''
   \<and> truncate_history (h @ [mk_message ''user'' (JStr (strip l))]) (max_turns a) = Inr trimmed
   \<and> call_api w (url a) (model a) trimmed (temperature a) (timeout a) = Inl e
   \<longrightarrow>
     loop_iteration a w h (Line l) =
       \<lparr>history = h @ [mk_message ''user'' (JStr (strip l)),
                        mk_message ''assistant'' (JStr (''(Error: '' @ str_exn e @ '')''))],
        printed = [''SpongeBob (error): '' @ str_exn e],
        submitted = [trimmed], written = [], control = Continue\<rparr>
     \<and> length (history (loop_iteration a w h (Line l))) = length h + 2
     \<and> sublist (str_exn e) (''(Error: '' @ str_exn e @ '')'')
     \<and> history (run a ((w, Line l) # evs) h)
         = history (run a evs
             (h @ [mk_message ''user'' (JStr (strip l)),
                   mk_message ''assistant'' (JStr (''(Error: '' @ str_exn e @ '')''))]))
     \<and> (post w (url a)
            \<lparr>p_model = model a, p_messages = trimmed, p_temperature = temperature a\<rparr>
            (timeout a) = Responded resp
          \<and> status_code resp \<noteq> 200
         \<longrightarrow> e = RuntimeError
                   (''HTTP '' @ str_int (status_code resp) @ '': '' @ resp_text resp)
             \<and> sublist (str_int (status_code resp)) (''(Error: '' @ str_exn e @ '')'')
             \<and> sublist (resp_text resp) (''(Error: '' @ str_exn e @ '')''))"
proof
  assume hyp: "strip l \<noteq> [] \<and> \<not> startswith (strip l) '':''
   \<and> truncate_history (h @ [mk_message ''user'' (JStr (strip l))]) (max_turns a) = Inr trimmed
   \<and> call_api w (url a) (model a) trimmed (temperature a) (timeout a) = Inl e"
  let ?err = "mk_message ''assistant'' (JStr (''(Error: '' @ str_exn e @ '')''))"
  let ?usr = "mk_message ''user'' (JStr (strip l))"
  let ?r = "\<lparr>history = h @ [?usr, ?err],
        printed = [''SpongeBob (error): '' @ str_exn e],
        submitted = [trimmed], written = [], control = Continue\<rparr>"
  have it: "loop_iteration a w h (Line l) = ?r"
    using hyp loop_iteration_chat [of l a w h] chat_turn_failure [of h "strip l" a trimmed w e]
    by simp
  have len: "length (history (loop_iteration a w h (Line l))) = length h + 2"
    unfolding it by simp
  have sub: "sublist (str_exn e) (''(Error: '' @ str_exn e @ '')'')"
    by (rule sublist_appendI)
  have go: "history (run a ((w, Line l) # evs) h) = history (run a evs (h @ [?usr, ?err]))"
    using run_after_continue [of a w h "Line l" evs] unfolding it by simp
  have http: "e = RuntimeError (''HTTP '' @ str_int (status_code resp) @ '': '' @ resp_text resp)
             \<and> sublist (str_int (status_code resp)) (''(Error: '' @ str_exn e @ '')'')
             \<and> sublist (resp_text resp) (''(Error: '' @ str_exn e @ '')'')"
    if p: "post w (url a)
            \<lparr>p_model = model a, p_messages = trimmed, p_temperature = temperature a\<rparr>
            (timeout a) = Responded resp \<and> status_code resp \<noteq> 200"
  proof -
    have e: "e = RuntimeError (''HTTP '' @ str_int (status_code resp) @ '': '' @ resp_text resp)"
      using call_api_not_200 [of w "url a" "model a" trimmed "temperature a" "timeout a" resp]
        p hyp by simp
    show ?thesis
      unfolding e str_exn.simps
      using sublist_http_code [of "str_int (status_code resp)" "''(Error: ''" "resp_text resp" "'')''"]
        sublist_http_raw [of "resp_text resp" "''(Error: ''" "str_int (status_code resp)" "'')''"]
      by simp
  qed
  show "loop_iteration a w h (Line l) = ?r
     \<and> length (history (loop_iteration a w h (Line l))) = length h + 2
     \<and> sublist (str_exn e) (''(Error: '' @ str_exn e @ '')'')
     \<and> history (run a ((w, Line l) # evs) h) = history (run a evs (h @ [?usr, ?err]))
     \<and> (post w (url a)
            \<lparr>p_model = model a, p_messages = trimmed, p_temperature = temperature a\<rparr>
            (timeout a) = Responded resp
          \<and> status_code resp \<noteq> 200
         \<longrightarrow> e = RuntimeError
                   (''HTTP '' @ str_int (status_code resp) @ '': '' @ resp_text resp)
             \<and> sublist (str_int (status_code resp)) (''(Error: '' @ str_exn e @ '')'')
             \<and> sublist (resp_text resp) (''(Error: '' @ str_exn e @ '')''))"
    using it len sub go http by blast
qed

theorem failed_turn_is_absorbed_witness:
  "loop_iteration one_pair (answering 500 ''server exploded'' JNull) (initial_history one_pair)
      (Line ''hi'') =
     \<lparr>history = initial_history one_pair
                 @ [mk_message ''user'' (JStr ''hi''),
                    mk_message ''assistant'' (JStr ''(Error: HTTP 500: server exploded)'')],
      printed = [''SpongeBob (error): HTTP 500: server exploded''],
      submitted = [initial_history one_pair @ [mk_message ''user'' (JStr ''hi'')]],
      written = [], control = Continue\<rparr>
   \<and> sublist ''500'' ''(Error: HTTP 500: server exploded)''
   \<and> sublist ''server exploded'' ''(Error: HTTP 500: server exploded)''
   \<and> history (main one_pair
         [(answering 500 ''server exploded'' JNull, Line ''hi''),
          (answering 200 ''{}'' (completion (JStr ''Ahoy!'')), Line ''bye'')])
       = initial_history one_pair
           @ [mk_message ''user'' (JStr ''hi''),
              mk_message ''assistant'' (JStr ''(Error: HTTP 500: server exploded)''),
              mk_message ''user'' (JStr ''bye''),
              mk_message ''assistant'' (JStr ''Ahoy!'')]"
proof -
  let ?w = "answering 500 ''server exploded'' JNull"
  let ?w2 = "answering 200 ''{}'' (completion (JStr ''Ahoy!''))"
  let ?s = "mk_message ''system'' (JStr (system_prompt one_pair))"
  let ?hi = "mk_message ''user'' (JStr ''hi'')"
  let ?bye = "mk_message ''user'' (JStr ''bye'')"
  let ?err = "mk_message ''assistant'' (JStr ''(Error: HTTP 500: server exploded)'')"
  let ?e = "RuntimeError (''HTTP '' @ str_int 500 @ '': '' @ ''server exploded'')"
  have i: "initial_history one_pair = [?s]"
    by (simp add: initial_history_def)
  have k: "max_turns one_pair = 1"
    by (simp add: one_pair_def)
  have h1: "strip ''hi'' \<noteq> [] \<and> \<not> startswith (strip ''hi'') '':''"
    by (simp add: strip_hi startswith_def)
  have h2: "truncate_history ([?s] @ [mk_message ''user'' (JStr (strip ''hi''))])
              (max_turns one_pair) = Inr [?s, ?hi]"
    using truncate_history_Cons [of 1 ?s "[?hi]"] by (simp add: k strip_hi)
  have h3: "post ?w (url one_pair)
              \<lparr>p_model = model one_pair, p_messages = [?s, ?hi],
               p_temperature = temperature one_pair\<rparr> (timeout one_pair)
            = Responded \<lparr>status_code = 500, resp_text = ''server exploded'',
                         resp_json = Inr JNull\<rparr>"
    by (rule post_answering)
  have h4: "call_api ?w (url one_pair) (model one_pair) [?s, ?hi] (temperature one_pair)
              (timeout one_pair) = Inl ?e"
    using call_api_not_200 [OF h3] by simp
  note t = failed_turn_is_absorbed [of "''hi''" "[?s]" one_pair "[?s, ?hi]" ?w ?e
      "[(?w2, Line ''bye'')]"
      "\<lparr>status_code = 500, resp_text = ''server exploded'', resp_json = Inr JNull\<rparr>"]
  have hyp: "strip ''hi'' \<noteq> [] \<and> \<not> startswith (strip ''hi'') '':''
     \<and> truncate_history ([?s] @ [mk_message ''user'' (JStr (strip ''hi''))])
           (max_turns one_pair) = Inr [?s, ?hi]
     \<and> call_api ?w (url one_pair) (model one_pair) [?s, ?hi] (temperature one_pair)
           (timeout one_pair) = Inl ?e"
    using h1 h2 h4 by blast
  have sc: "post ?w (url one_pair)
              \<lparr>p_model = model one_pair, p_messages = [?s, ?hi],
               p_temperature = temperature one_pair\<rparr> (timeout one_pair)
            = Responded \<lparr>status_code = 500, resp_text = ''server exploded'',
                         resp_json = Inr JNull\<rparr>
          \<and> status_code \<lparr>status_code = 500, resp_text = ''server exploded'',
                         resp_json = Inr JNull\<rparr> \<noteq> 200"
    using h3 by simp
  note concl = t [THEN mp, OF hyp]
  note c0 = concl [THEN conjunct1]
  note g0 = concl [THEN conjunct2, THEN conjunct2, THEN conjunct2, THEN conjunct1]
  note p0 = concl [THEN conjunct2, THEN conjunct2, THEN conjunct2, THEN conjunct2, THEN mp,
      OF sc]
  have c: "loop_iteration one_pair ?w [?s] (Line ''hi'') =
     \<lparr>history = [?s] @ [?hi, ?err],
      printed = [''SpongeBob (error): HTTP 500: server exploded''],
      submitted = [[?s] @ [?hi]], written = [], control = Continue\<rparr>"
    using c0 by (simp add: strip_hi str_int_500)
  have s1: "sublist ''500'' ''(Error: HTTP 500: server exploded)''"
    using p0 [THEN conjunct2, THEN conjunct1] by (simp add: str_int_500)
  have s2: "sublist ''server exploded'' ''(Error: HTTP 500: server exploded)''"
    using p0 [THEN conjunct2, THEN conjunct2] by (simp add: str_int_500)
  have g: "history (run one_pair [(?w, Line ''hi''), (?w2, Line ''bye'')] [?s])
              = history (run one_pair [(?w2, Line ''bye'')] ([?s] @ [?hi, ?err]))"
    using g0 by (simp add: strip_hi str_int_500 del: run.simps)
  have t2: "truncate_history ([?s, ?hi, ?err] @ [?bye]) (max_turns one_pair)
              = Inr [?s, ?err, ?bye]"
    using truncate_history_Cons [of 1 ?s "[?hi, ?err, ?bye]"] by (simp add: k)
  have c2: "chat_turn one_pair ?w2 [?s, ?hi, ?err] ''bye'' =
     \<lparr>history = [?s, ?hi, ?err] @ [?bye, mk_message ''assistant'' (JStr ''Ahoy!'')],
      printed = [''SpongeBob: '' @ format_value ?w2 (JStr ''Ahoy!'')],
      submitted = [[?s, ?err, ?bye]], written = [], control = Continue\<rparr>"
    by (rule chat_turn_success [OF t2 call_api_answering_200 [OF extract_reply_completion]])
  have i2: "loop_iteration one_pair ?w2 [?s, ?hi, ?err] (Line ''bye'')
              = chat_turn one_pair ?w2 [?s, ?hi, ?err] ''bye''"
    using loop_iteration_chat [of "''bye''" one_pair ?w2] by (simp add: strip_bye startswith_def)
  have r2: "history (run one_pair [(?w2, Line ''bye'')] ([?s] @ [?hi, ?err]))
              = [?s, ?hi, ?err, ?bye, mk_message ''assistant'' (JStr ''Ahoy!'')]"
    by (simp add: i2 c2 quiet_def Let_def)
  show ?thesis
    unfolding main_def i using c s1 s2 g r2 by simp
qed

section \<open>The claims about the remote client\<close>

text \<open>
  Claim C4 says that \<open>call_api\<close> takes every status of the 200 class as a success.
  It does not: the test is \<open>resp.status_code != 200\<close>. A response with status 201 and a
  body from which the reply can be extracted is a failure.
\<close>

theorem call_api_created_counterexample:
  "call_api (answering 201 ''created'' (completion (JStr ''Ahoy!'')))
      ''https://ai.sooners.us/api/chat/completions'' ''gemma3:4b''
      [mk_message ''user'' (JStr ''hi'')] (6 / 10) 60
     = Inl (RuntimeError ''HTTP 201: created'')
   \<and> extract_reply (completion (JStr ''Ahoy!'')) = Some (JStr ''Ahoy!'')"
proof -
  have "call_api (answering 201 ''created'' (completion (JStr ''Ahoy!'')))
      ''https://ai.sooners.us/api/chat/completions'' ''gemma3:4b''
      [mk_message ''user'' (JStr ''hi'')] (6 / 10) 60
     = Inl (RuntimeError (''HTTP '' @ str_int 201 @ '': '' @ ''created''))"
    using call_api_not_200 [OF post_answering, of 201] by simp
  then show ?thesis
    by (simp add: str_int_201 extract_reply_completion)
qed

text \<open>
  Claim C4, amended. \<open>call_api\<close> takes the status 200, and no other, as a success and
  goes on to extract the reply from the decoded body. Every other status, the other codes
  of the 200 class included, is a failure whose message carries the status code and the
  raw body of the response.
\<close>

theorem call_api_status:
  "post w u \<lparr>p_model = mdl, p_messages = msgs, p_temperature = temp\<rparr> t = Responded resp
   \<longrightarrow>
     (status_code resp = 200 \<longrightarrow>
        call_api w u mdl msgs temp t
          = (case resp_json resp of
               Inl e \<Rightarrow> Inl e
             | Inr data \<Rightarrow>
                 (case extract_reply data of
                    Some reply \<Rightarrow> Inr reply
                  | None \<Rightarrow> Inl (RuntimeError
                                  (''Unexpected response format: '' @ json_dumps w data)))))
     \<and> (status_code resp \<noteq> 200 \<longrightarrow>
          call_api w u mdl msgs temp t
            = Inl (RuntimeError
                     (''HTTP '' @ str_int (status_code resp) @ '': '' @ resp_text resp))
          \<and> sublist (str_int (status_code resp))
               (''HTTP '' @ str_int (status_code resp) @ '': '' @ resp_text resp)
          \<and> sublist (resp_text resp)
               (''HTTP '' @ str_int (status_code resp) @ '': '' @ resp_text resp))"
  using call_api_200 [of w u mdl msgs temp t resp]
    call_api_not_200 [of w u mdl msgs temp t resp]
    sublist_http_code [of "str_int (status_code resp)" "[]" "resp_text resp" "[]"]
    sublist_http_raw [of "resp_text resp" "[]" "str_int (status_code resp)" "[]"]
  by simp

theorem call_api_status_witness:
  "call_api (answering 200 ''{}'' (completion (JStr ''Ahoy!''))) ''u'' ''m'' [] 0 60
     = Inr (JStr ''Ahoy!'')
   \<and> call_api (answering 404 ''not found'' JNull) ''u'' ''m'' [] 0 60
     = Inl (RuntimeError ''HTTP 404: not found'')
   \<and> sublist ''404'' ''HTTP 404: not found''
   \<and> sublist ''not found'' ''HTTP 404: not found''"
proof -
  note ok = call_api_status [of "answering 200 ''{}'' (completion (JStr ''Ahoy!''))"
      "''u''" "''m''" "[]" 0 60
      "\<lparr>status_code = 200, resp_text = ''{}'', resp_json = Inr (completion (JStr ''Ahoy!''))\<rparr>",
      THEN mp, OF post_answering]
  note ko = call_api_status [of "answering 404 ''not found'' JNull"
      "''u''" "''m''" "[]" 0 60
      "\<lparr>status_code = 404, resp_text = ''not found'', resp_json = Inr JNull\<rparr>",
      THEN mp, OF post_answering]
  have a: "call_api (answering 200 ''{}'' (completion (JStr ''Ahoy!''))) ''u'' ''m'' [] 0 60
     = Inr (JStr ''Ahoy!'')"
    using ok [THEN conjunct1] by (simp add: extract_reply_completion)
  have b: "call_api (answering 404 ''not found'' JNull) ''u'' ''m'' [] 0 60
     = Inl (RuntimeError ''HTTP 404: not found'')
   \<and> sublist ''404'' ''HTTP 404: not found''
   \<and> sublist ''not found'' ''HTTP 404: not found''"
    using ko [THEN conjunct2] by (simp add: str_int_404)
  show ?thesis using a b by blast
qed

section \<open>The claim about the transcript\<close>

text \<open>
  Claim C8 says that the text \<open>save_transcript\<close> writes for a history of \<open>m\<close>
  messages reads back as the \<open>m\<close> role and content pairs. It does not when a content
  holds a blank line: the history of the single assistant message with the content
  \<open>Sure!\<close>, a blank line, \<open>User: ok\<close> is written as the very text of the history of the
  two messages \<open>Sure!\<close> and \<open>ok\<close>, and reads back as two pairs.
\<close>

theorem transcript_round_trip_counterexample:
  "save_transcript (answering 200 ''{}'' JNull)
      [mk_message ''assistant'' (JStr (''Sure!'' @ [CHR 0x0A, CHR 0x0A] @ ''User: ok''))]
      ''chat.txt''
     = Inr (''/home/bob/chat.txt'',
            ''Assistant: Sure!'' @ [CHR 0x0A, CHR 0x0A] @ ''User: ok'' @ [CHR 0x0A, CHR 0x0A])
   \<and> parse_transcript
        (''Assistant: Sure!'' @ [CHR 0x0A, CHR 0x0A] @ ''User: ok'' @ [CHR 0x0A, CHR 0x0A])
     = Some [(''Assistant'', ''Sure!''), (''User'', ''ok'')]
   \<and> save_transcript (answering 200 ''{}'' JNull)
        [mk_message ''assistant'' (JStr ''Sure!''), mk_message ''user'' (JStr ''ok'')]
        ''chat.txt''
     = Inr (''/home/bob/chat.txt'',
            ''Assistant: Sure!'' @ [CHR 0x0A, CHR 0x0A] @ ''User: ok'' @ [CHR 0x0A, CHR 0x0A])"
proof -
  have a: "transcript_text (answering 200 ''{}'' JNull)
      [mk_message ''assistant'' (JStr (''Sure!'' @ [CHR 0x0A, CHR 0x0A] @ ''User: ok''))]
     = Inr (''Assistant: Sure!'' @ [CHR 0x0A, CHR 0x0A] @ ''User: ok'' @ [CHR 0x0A, CHR 0x0A])"
    by (simp add: transcript_entry_text capitalize_roles)
  have b: "transcript_text (answering 200 ''{}'' JNull)
      [mk_message ''assistant'' (JStr ''Sure!''), mk_message ''user'' (JStr ''ok'')]
     = Inr (''Assistant: Sure!'' @ [CHR 0x0A, CHR 0x0A] @ ''User: ok'' @ [CHR 0x0A, CHR 0x0A])"
    by (simp add: transcript_entry_text capitalize_roles)
  have c: "parse_transcript
        (''Assistant: Sure!'' @ [CHR 0x0A, CHR 0x0A] @ ''User: ok'' @ [CHR 0x0A, CHR 0x0A])
     = Some [(''Assistant'', ''Sure!''), (''User'', ''ok'')]"
    by (simp add: parse_transcript_def)
  show ?thesis
    using save_transcript_answering [OF a, of "''chat.txt''"]
      save_transcript_answering [OF b, of "''chat.txt''"] c
    by simp
qed

text \<open>
  Claim C8, amended. When no role contains a colon or a newline, and every content is a
  string with no blank line inside (no two consecutive newlines) and no newline at its
  end, the text that \<open>save_transcript\<close> writes for a history of \<open>m\<close> messages reads
  back as exactly \<open>m\<close> pairs, in the order of the history: the content of each message,
  with its role capitalized as the label.
\<close>

theorem transcript_round_trip:
  "(\<forall>(r, c)\<in>set ps. CHR '':'' \<notin> set r \<and> CHR 0x0A \<notin> set r
        \<and> \<not> sublist [CHR 0x0A, CHR 0x0A] c \<and> \<not> suffix [CHR 0x0A] c)
   \<and> save_transcript w (map (\<lambda>(r, c). mk_message r (JStr c)) ps) path = Inr (p, tx)
   \<longrightarrow> parse_transcript tx = Some (map (\<lambda>(r, c). (capitalize r, c)) ps)
       \<and> length (map (\<lambda>(r, c). (capitalize r, c)) ps) = length ps"
proof
  assume h: "(\<forall>(r, c)\<in>set ps. CHR '':'' \<notin> set r \<and> CHR 0x0A \<notin> set r
        \<and> \<not> sublist [CHR 0x0A, CHR 0x0A] c \<and> \<not> suffix [CHR 0x0A] c)
   \<and> save_transcript w (map (\<lambda>(r, c). mk_message r (JStr c)) ps) path = Inr (p, tx)"
  have t: "tx = concat (map (\<lambda>(r, c). capitalize r @ '': '' @ c @ [CHR 0x0A, CHR 0x0A]) ps)"
    using h save_transcript_text [of w _ path p tx] transcript_text_pairs [of w ps] by simp
  have s: "split_entries [] tx = map (\<lambda>(r, c). capitalize r @ '': '' @ c) ps"
    unfolding t using h by (intro split_entries_pairs) auto
  have "parse_transcript tx = Some (map (\<lambda>(r, c). (capitalize r, c)) ps)"
    unfolding parse_transcript_def s using h by (intro parse_entries_pairs) auto
  then show "parse_transcript tx = Some (map (\<lambda>(r, c). (capitalize r, c)) ps)
       \<and> length (map (\<lambda>(r, c). (capitalize r, c)) ps) = length ps"
    by simp
qed

theorem transcript_round_trip_witness:
  "parse_transcript
     (''System: Be kind.'' @ [CHR 0x0A, CHR 0x0A] @ ''User: hi'' @ [CHR 0x0A, CHR 0x0A]
      @ ''Assistant: Ahoy!'' @ [CHR 0x0A] @ ''Ready: yes?'' @ [CHR 0x0A, CHR 0x0A])
   = Some [(''System'', ''Be kind.''), (''User'', ''hi''),
           (''Assistant'', ''Ahoy!'' @ [CHR 0x0A] @ ''Ready: yes?'')]"
proof -
  let ?ps = "[(''system'', ''Be kind.''), (''user'', ''hi''),
              (''assistant'', ''Ahoy!'' @ [CHR 0x0A] @ ''Ready: yes?'')]"
  let ?tx = "''System: Be kind.'' @ [CHR 0x0A, CHR 0x0A] @ ''User: hi'' @ [CHR 0x0A, CHR 0x0A]
      @ ''Assistant: Ahoy!'' @ [CHR 0x0A] @ ''Ready: yes?'' @ [CHR 0x0A, CHR 0x0A]"
  have t: "transcript_text (answering 200 ''{}'' JNull)
             (map (\<lambda>(r, c). mk_message r (JStr c)) ?ps) = Inr ?tx"
    by (simp add: transcript_entry_text capitalize_roles)
  have h: "(\<forall>(r, c)\<in>set ?ps. CHR '':'' \<notin> set r \<and> CHR 0x0A \<notin> set r
        \<and> \<not> sublist [CHR 0x0A, CHR 0x0A] c \<and> \<not> suffix [CHR 0x0A] c)
   \<and> save_transcript (answering 200 ''{}'' JNull)
         (map (\<lambda>(r, c). mk_message r (JStr c)) ?ps) ''chat.txt''
       = Inr (''/home/bob/chat.txt'', ?tx)"
    using save_transcript_answering [OF t, of "''chat.txt''"]
    by (simp add: sublist_Cons_right suffix_Cons)
  show ?thesis
    using transcript_round_trip [THEN mp, OF h] by (simp add: capitalize_roles)
qed

end
